theory Spec2Isabelle
  imports Main "HOL-Library.List_Lexorder" "HOL-Library.Char_ord"
begin

section \<open>JavaScript values\<close>

text \<open>
  The storage functions take \<open>data: any\<close>. The fields on which the code dispatches by
  \<open>typeof\<close> or by truthiness (\<open>lastContacted\<close>, \<open>hasInvoice\<close>, \<open>assignedToId\<close>,
  \<open>clientId\<close>) are values of \<open>jsval\<close>. A number is an integer or \<open>NaN\<close> (the
  code only compares numbers with 0 and stores them in integer columns). A \<open>Date\<close>
  object carries its time value in milliseconds since the epoch, \<open>None\<close> for an
  Invalid Date. Instants are \<open>int\<close> milliseconds throughout.
\<close>

datatype jsval =
    JUndefined
  | JNull
  | JBool bool
  | JNum int
  | JNaN
  | JStr string
  | JDate "int option"

text \<open>
  The text fields the code copies without looking at their type (\<open>name\<close>, \<open>status\<close>,
  \<open>type\<close>, ...) are absent, null or a string.
\<close>

datatype jstext = TUndefined | TNull | TStr string

fun truthy :: "jsval \<Rightarrow> bool" where
  "truthy JUndefined = False"
| "truthy JNull = False"
| "truthy (JBool b) = b"
| "truthy (JNum n) = (n \<noteq> 0)"
| "truthy JNaN = False"
| "truthy (JStr s) = (s \<noteq> [])"
| "truthy (JDate d) = True"

text \<open>\<open>x || dflt\<close> on a text field: the string when it is non-empty, else the default.\<close>

fun orElse :: "jstext \<Rightarrow> string \<Rightarrow> string" where
  "orElse (TStr s) dflt = (if s = [] then dflt else s)"
| "orElse TUndefined dflt = dflt"
| "orElse TNull dflt = dflt"

text \<open>\<open>if (x) target = x\<close> on a text field: set only when the string is non-empty.\<close>

fun whenTruthy :: "jstext \<Rightarrow> string option" where
  "whenTruthy (TStr s) = (if s = [] then None else Some s)"
| "whenTruthy TUndefined = None"
| "whenTruthy TNull = None"

text \<open>
  \<open>String.prototype.toLowerCase\<close> on the ASCII letters; every other byte is left as it
  is (no character outside ASCII lowers to a letter of \<open>true\<close> or \<open>false\<close>).
\<close>

definition lowerChar :: "char \<Rightarrow> char" where
  "lowerChar c =
     (let n = (of_char c :: nat) in if 65 \<le> n \<and> n \<le> 90 then char_of (n + 32) else c)"

definition toLowerCase :: "string \<Rightarrow> string" where
  "toLowerCase s = map lowerChar s"

text \<open>
  \<open>parseInt(s)\<close>: leading white space is skipped, then an optional sign, then an
  optional \<open>0x\<close> prefix selecting radix 16, then the longest prefix of digits; \<open>None\<close> is
  \<open>NaN\<close> (no digit found).
\<close>

definition isWhiteSpace :: "char \<Rightarrow> bool" where
  "isWhiteSpace c = ((of_char c :: nat) \<in> {9, 10, 11, 12, 13, 32})"

definition digitValue :: "char \<Rightarrow> nat option" where
  "digitValue c =
     (let n = (of_char c :: nat) in
      if 48 \<le> n \<and> n \<le> 57 then Some (n - 48)
      else if 97 \<le> n \<and> n \<le> 102 then Some (n - 87)
      else if 65 \<le> n \<and> n \<le> 70 then Some (n - 55)
      else None)"

definition isDigitIn :: "nat \<Rightarrow> char \<Rightarrow> bool" where
  "isDigitIn radix c = (case digitValue c of None \<Rightarrow> False | Some v \<Rightarrow> v < radix)"

definition digitsValue :: "nat \<Rightarrow> string \<Rightarrow> int" where
  "digitsValue radix ds = foldl (\<lambda>acc c. acc * int radix + int (the (digitValue c))) 0 ds"

definition parseMagnitude :: "string \<Rightarrow> int option" where
  "parseMagnitude s =
     (let (radix, body) =
            (if take 2 s = ''0x'' \<or> take 2 s = ''0X'' then (16, drop 2 s) else (10, s));
          ds = takeWhile (isDigitIn radix) body
      in if ds = [] then None else Some (digitsValue radix ds))"

definition parseInt :: "string \<Rightarrow> int option" where
  "parseInt s =
     (let t = dropWhile isWhiteSpace s in
      case t of
        [] \<Rightarrow> None
      | c # rest \<Rightarrow>
          if c = CHR ''-'' then map_option uminus (parseMagnitude rest)
          else if c = CHR ''+'' then parseMagnitude rest
          else parseMagnitude t)"

text \<open>
  \<open>new Date(s)\<close> for a string: the parsing of a non-empty string is the engine's
  (\<open>Date.parse\<close>), taken as the parameter \<open>parse\<close>; the empty string is an Invalid
  Date in every engine.
\<close>

definition newDate :: "(string \<Rightarrow> int option) \<Rightarrow> string \<Rightarrow> int option" where
  "newDate parse s = (if s = [] then None else parse s)"

section \<open>The tables of \<open>shared/schema.ts\<close>\<close>

record teamMember =
  tm_id :: int
  tm_name :: string
  tm_email :: string
  tm_role :: string

record client =
  c_id :: int
  c_name :: string
  c_status :: string
  c_lastContacted :: "int option"
  c_createdAt :: int
  c_updatedAt :: int

text \<open>
  A row of \<open>projects\<close> without its serial \<open>id\<close> is what \<open>db.insert(projects).values\<close>
  receives; the row itself adds the \<open>id\<close>.
\<close>

record projectValues =
  p_name :: string
  p_phoneNumber :: "string option"
  p_poc :: "string option"
  p_type :: string
  p_affiliatePartner :: "string option"
  p_category :: "string option"
  p_lastContacted :: "int option"
  p_status :: string
  p_activeStage :: "string option"
  p_hasInvoice :: "string option"
  p_assignedToId :: int
  p_clientId :: "int option"
  p_createdAt :: int
  p_updatedAt :: int

record project = projectValues +
  p_id :: int

record document =
  doc_id :: int
  doc_name :: string
  doc_filePath :: string
  doc_clientId :: int
  doc_createdAt :: int

text \<open>
  The database: the four tables in insertion order and the two serial sequences the
  modelled functions draw from.
\<close>

record database =
  teamMembers :: "teamMember list"
  projects :: "project list"
  clients :: "client list"
  documents :: "document list"
  nextProjectId :: int
  nextClientId :: int

datatype error =
    ZodError "string list"
  | ProjectNotFound int
  | InvalidTimeValue
  | ConstraintViolation string

section \<open>Client propagation helpers (\<open>server/storage.ts\<close>)\<close>

text \<open>\<open>db.query.clients.findFirst({ where: eq(clients.id, clientId) })\<close>\<close>

definition findClient :: "database \<Rightarrow> int \<Rightarrow> client option" where
  "findClient db clientId = find (\<lambda>c. c_id c = clientId) (clients db)"

text \<open>
  \<open>updateClientLastContacted(clientId, lastContacted)\<close>. The argument is a date read
  back from the \<open>projects\<close> table, hence a valid instant; \<open>now\<close> is \<open>new Date()\<close>.
\<close>

definition updateClientLastContacted :: "database \<Rightarrow> int \<Rightarrow> int \<Rightarrow> int \<Rightarrow> database" where
  "updateClientLastContacted db clientId lastContacted now =
     (case findClient db clientId of
        None \<Rightarrow> db
      | Some client \<Rightarrow>
          if c_lastContacted client = None \<or> lastContacted > the (c_lastContacted client)
          then db\<lparr>clients :=
                    map (\<lambda>c. if c_id c = clientId
                              then c\<lparr>c_lastContacted := Some lastContacted, c_updatedAt := now\<rparr>
                              else c)
                        (clients db)\<rparr>
          else db)"

text \<open>\<open>updateClientStatus(clientId, status)\<close>\<close>

definition updateClientStatus :: "database \<Rightarrow> int \<Rightarrow> string \<Rightarrow> int \<Rightarrow> database" where
  "updateClientStatus db clientId status now =
     db\<lparr>clients :=
          map (\<lambda>c. if c_id c = clientId then c\<lparr>c_status := status, c_updatedAt := now\<rparr> else c)
              (clients db)\<rparr>"

text \<open>
  A sequence of propagations to one client: each element is the propagated date with the
  clock reading of its call.
\<close>

definition propagateAll :: "database \<Rightarrow> int \<Rightarrow> (int \<times> int) list \<Rightarrow> database" where
  "propagateAll db clientId ds =
     foldl (\<lambda>s (d, now). updateClientLastContacted s clientId d now) db ds"

text \<open>The later of a stored (possibly absent) date and a candidate.\<close>

definition laterOf :: "int option \<Rightarrow> int \<Rightarrow> int option" where
  "laterOf cur d = (case cur of None \<Rightarrow> Some d | Some t \<Rightarrow> Some (max t d))"

section \<open>Project input and normalisation (\<open>createProject\<close>, \<open>updateProject\<close>)\<close>

text \<open>The argument \<open>data\<close> of \<open>createProject\<close> and \<open>updateProject\<close>.\<close>

record projectData =
  data_name :: jstext
  data_phoneNumber :: jstext
  data_poc :: jstext
  data_type :: jstext
  data_affiliatePartner :: jstext
  data_category :: jstext
  data_status :: jstext
  data_activeStage :: jstext
  data_lastContacted :: jsval
  data_hasInvoice :: jsval
  data_assignedToId :: jsval
  data_clientId :: jsval

text \<open>
  What the code leaves in a \<open>lastContacted\<close> slot of \<open>insertData\<close> or \<open>updateData\<close>:
  nothing (the key is not set), \<open>null\<close>, or a \<open>Date\<close> (\<open>None\<close> for an Invalid Date).
\<close>

datatype dateSlot = NotSet | NullDate | ADate "int option"

text \<open>
  The \<open>typeof\<close> chain on \<open>data.hasInvoice\<close>, the same text in \<open>createProject\<close>
  (lines 171-187) and \<open>updateProject\<close> (lines 267-283). \<open>typeof NaN\<close> is
  \<open>'number'\<close> and \<open>NaN > 0\<close> is false.
\<close>

fun coerceHasInvoice :: "jsval \<Rightarrow> string" where
  "coerceHasInvoice (JBool b) = (if b then ''yes'' else ''no'')"
| "coerceHasInvoice (JNum n) = (if n > 0 then ''yes'' else ''no'')"
| "coerceHasInvoice JNaN = ''no''"
| "coerceHasInvoice (JStr s) =
     (if toLowerCase s = ''true'' then ''yes''
      else if toLowerCase s = ''false'' then ''no''
      else s)"
| "coerceHasInvoice JUndefined = ''no''"
| "coerceHasInvoice JNull = ''no''"
| "coerceHasInvoice (JDate d) = ''no''"

text \<open>\<open>createProject\<close>, lines 168-190.\<close>

definition insertHasInvoice :: "jsval \<Rightarrow> string" where
  "insertHasInvoice v = (if v \<noteq> JUndefined then coerceHasInvoice v else ''no'')"

text \<open>\<open>updateProject\<close>, lines 264-284: \<open>None\<close> when the key is not set.\<close>

definition updateHasInvoice :: "jsval \<Rightarrow> string option" where
  "updateHasInvoice v = (if v \<noteq> JUndefined then Some (coerceHasInvoice v) else None)"

text \<open>\<open>createProject\<close>, lines 157-166.\<close>

definition insertLastContacted :: "(string \<Rightarrow> int option) \<Rightarrow> jsval \<Rightarrow> dateSlot" where
  "insertLastContacted parse v =
     (if truthy v then
        (case v of
           JStr s \<Rightarrow> ADate (newDate parse s)
         | JDate d \<Rightarrow> ADate d
         | _ \<Rightarrow> NotSet)
      else NullDate)"

text \<open>\<open>updateProject\<close>, lines 253-262.\<close>

definition updateLastContacted :: "(string \<Rightarrow> int option) \<Rightarrow> jsval \<Rightarrow> dateSlot" where
  "updateLastContacted parse v =
     (if v \<noteq> JUndefined then
        (case v of
           JNull \<Rightarrow> NullDate
         | JStr s \<Rightarrow> ADate (newDate parse s)
         | JDate d \<Rightarrow> ADate d
         | _ \<Rightarrow> NotSet)
      else NotSet)"

text \<open>\<open>createProject\<close>, lines 147-149.\<close>

definition insertAssignedToId :: "jsval \<Rightarrow> jsval" where
  "insertAssignedToId v =
     (case v of
        JStr s \<Rightarrow> (case parseInt s of None \<Rightarrow> JNaN | Some n \<Rightarrow> JNum n)
      | _ \<Rightarrow> if truthy v then v else JNum 1)"

text \<open>\<open>updateProject\<close>, lines 286-291 (\<open>JUndefined\<close>: the key is not set).\<close>

definition updateAssignedToId :: "jsval \<Rightarrow> jsval" where
  "updateAssignedToId v =
     (if v \<noteq> JUndefined then
        (case v of
           JStr s \<Rightarrow> (case parseInt s of None \<Rightarrow> JNaN | Some n \<Rightarrow> JNum n)
         | _ \<Rightarrow> v)
      else JUndefined)"

record insertData =
  ins_name :: string
  ins_phoneNumber :: string
  ins_poc :: string
  ins_type :: string
  ins_status :: string
  ins_assignedToId :: jsval
  ins_affiliatePartner :: "string option"
  ins_category :: "string option"
  ins_activeStage :: "string option"
  ins_lastContacted :: dateSlot
  ins_hasInvoice :: string
  ins_createdAt :: int
  ins_updatedAt :: int

text \<open>\<open>createProject\<close>, lines 140-194: the clean object built from \<open>data\<close>.\<close>

definition buildInsertData :: "(string \<Rightarrow> int option) \<Rightarrow> int \<Rightarrow> projectData \<Rightarrow> insertData" where
  "buildInsertData parse now data =
     \<lparr>ins_name = orElse (data_name data) '''',
      ins_phoneNumber = orElse (data_phoneNumber data) '''',
      ins_poc = orElse (data_poc data) '''',
      ins_type = orElse (data_type data) ''direct'',
      ins_status = orElse (data_status data) ''active'',
      ins_assignedToId = insertAssignedToId (data_assignedToId data),
      ins_affiliatePartner = whenTruthy (data_affiliatePartner data),
      ins_category = whenTruthy (data_category data),
      ins_activeStage = whenTruthy (data_activeStage data),
      ins_lastContacted = insertLastContacted parse (data_lastContacted data),
      ins_hasInvoice = insertHasInvoice (data_hasInvoice data),
      ins_createdAt = now,
      ins_updatedAt = now\<rparr>"

text \<open>
  \<open>projectInsertSchema.parse\<close> (\<open>shared/schema.ts\<close>, lines 95-102, over the columns of
  \<open>projects\<close>): every violated field is reported, in column order. \<open>name\<close> has at least
  2 characters, \<open>type\<close> and \<open>status\<close> at least 1, \<open>lastContacted\<close> is absent, null or
  a valid date, \<open>hasInvoice\<close> is \<open>yes\<close> or \<open>no\<close>, \<open>assignedToId\<close> is a number.
\<close>

definition schemaIssues :: "insertData \<Rightarrow> string list" where
  "schemaIssues i =
     (if length (ins_name i) < 2 then [''name''] else []) @
     (if length (ins_type i) < 1 then [''type''] else []) @
     (if ins_lastContacted i = ADate None then [''lastContacted''] else []) @
     (if length (ins_status i) < 1 then [''status''] else []) @
     (if ins_hasInvoice i \<noteq> ''yes'' \<and> ins_hasInvoice i \<noteq> ''no'' then [''hasInvoice''] else []) @
     (case ins_assignedToId i of JNum n \<Rightarrow> [] | _ \<Rightarrow> [''assignedToId''])"

definition projectInsertSchema_parse :: "insertData \<Rightarrow> error + projectValues" where
  "projectInsertSchema_parse i =
     (if schemaIssues i \<noteq> [] then Inl (ZodError (schemaIssues i))
      else Inr
        \<lparr>p_name = ins_name i,
         p_phoneNumber = Some (ins_phoneNumber i),
         p_poc = Some (ins_poc i),
         p_type = ins_type i,
         p_affiliatePartner = ins_affiliatePartner i,
         p_category = ins_category i,
         p_lastContacted = (case ins_lastContacted i of ADate d \<Rightarrow> d | _ \<Rightarrow> None),
         p_status = ins_status i,
         p_activeStage = ins_activeStage i,
         p_hasInvoice = Some (ins_hasInvoice i),
         p_assignedToId = (case ins_assignedToId i of JNum n \<Rightarrow> n | _ \<Rightarrow> 0),
         p_clientId = None,
         p_createdAt = ins_createdAt i,
         p_updatedAt = ins_updatedAt i\<rparr>)"

section \<open>Inserts\<close>

text \<open>
  \<open>db.insert(clients).values(...).returning()\<close>: the serial sequence gives the id (and
  is consumed even when the insert fails); the primary key rejects a duplicate.
\<close>

definition insertClient ::
  "database \<Rightarrow> string \<Rightarrow> string \<Rightarrow> int option \<Rightarrow> int \<Rightarrow> int \<Rightarrow> (error + client) \<times> database" where
  "insertClient db name status lastContacted createdAt updatedAt =
     (let newId = nextClientId db;
          db1 = db\<lparr>nextClientId := newId + 1\<rparr>;
          newClient = \<lparr>c_id = newId, c_name = name, c_status = status,
                       c_lastContacted = lastContacted,
                       c_createdAt = createdAt, c_updatedAt = updatedAt\<rparr>
      in if newId \<in> c_id ` set (clients db) then (Inl (ConstraintViolation ''clients_pkey''), db1)
         else (Inr newClient, db1\<lparr>clients := clients db @ [newClient]\<rparr>))"

text \<open>
  \<open>db.insert(projects).values(validatedData).returning()\<close>: serial id, primary key, and
  the two foreign keys of the table (\<open>assignedToId\<close> to \<open>teamMembers\<close>, \<open>clientId\<close> to
  \<open>clients\<close>).
\<close>

definition insertProject :: "database \<Rightarrow> projectValues \<Rightarrow> (error + project) \<times> database" where
  "insertProject db v =
     (let newId = nextProjectId db;
          db1 = db\<lparr>nextProjectId := newId + 1\<rparr>;
          newProject = projectValues.extend v (project.fields newId)
      in if newId \<in> p_id ` set (projects db) then (Inl (ConstraintViolation ''projects_pkey''), db1)
         else if p_assignedToId v \<notin> tm_id ` set (teamMembers db)
         then (Inl (ConstraintViolation ''projects_assigned_to_id_fkey''), db1)
         else if (case p_clientId v of None \<Rightarrow> False | Some c \<Rightarrow> c \<notin> c_id ` set (clients db))
         then (Inl (ConstraintViolation ''projects_client_id_fkey''), db1)
         else (Inr newProject, db1\<lparr>projects := projects db @ [newProject]\<rparr>))"

text \<open>Truthiness of a nullable integer column (\<open>newProject.clientId && ...\<close>).\<close>

fun truthyId :: "int option \<Rightarrow> bool" where
  "truthyId None = False"
| "truthyId (Some n) = (n \<noteq> 0)"

section \<open>\<open>createProject\<close>\<close>

text \<open>
  In the functions below \<open>now\<close> stands for every \<open>new Date()\<close> read during one call.

  Lines 201-212: the client association. The branch tests the raw \<open>data.type\<close>, not the
  defaulted \<open>insertData.type\<close>.
\<close>

definition associateClient ::
  "database \<Rightarrow> int \<Rightarrow> projectData \<Rightarrow> insertData \<Rightarrow> projectValues
     \<Rightarrow> (error + projectValues) \<times> database" where
  "associateClient db now data i validatedData =
     (if data_type data = TStr ''direct'' \<and> \<not> truthy (data_clientId data)
         \<and> whenTruthy (data_name data) \<noteq> None
      then
        (case insertClient db (the (whenTruthy (data_name data)))
                (orElse (data_status data) ''active'')
                (case ins_lastContacted i of ADate d \<Rightarrow> d | _ \<Rightarrow> None)
                now now of
           (Inl e, db1) \<Rightarrow> (Inl e, db1)
         | (Inr newClient, db1) \<Rightarrow> (Inr (validatedData\<lparr>p_clientId := Some (c_id newClient)\<rparr>), db1))
      else (Inr validatedData, db))"

definition createProject ::
  "(string \<Rightarrow> int option) \<Rightarrow> database \<Rightarrow> int \<Rightarrow> projectData \<Rightarrow> (error + project) \<times> database" where
  "createProject parse db now data =
     (let i = buildInsertData parse now data in
      case projectInsertSchema_parse i of
        Inl e \<Rightarrow> (Inl e, db)
      | Inr validatedData \<Rightarrow>
          (case associateClient db now data i validatedData of
             (Inl e, db1) \<Rightarrow> (Inl e, db1)
           | (Inr validatedData', db1) \<Rightarrow>
               (case insertProject db1 validatedData' of
                  (Inl e, db2) \<Rightarrow> (Inl e, db2)
                | (Inr newProject, db2) \<Rightarrow>
                    (Inr newProject,
                     if truthyId (p_clientId newProject) \<and> p_lastContacted newProject \<noteq> None
                     then updateClientLastContacted db2 (the (p_clientId newProject))
                            (the (p_lastContacted newProject)) now
                     else db2))))"

section \<open>\<open>updateProject\<close>\<close>

record updateData =
  upd_name :: jstext
  upd_phoneNumber :: jstext
  upd_poc :: jstext
  upd_type :: jstext
  upd_affiliatePartner :: jstext
  upd_category :: jstext
  upd_status :: jstext
  upd_activeStage :: jstext
  upd_lastContacted :: dateSlot
  upd_hasInvoice :: "string option"
  upd_assignedToId :: jsval
  upd_updatedAt :: int

text \<open>
  Lines 240-294. \<open>if (data.f !== undefined) updateData.f = data.f\<close> copies the field;
  an undefined field stays not set (\<open>TUndefined\<close>).
\<close>

definition buildUpdateData :: "(string \<Rightarrow> int option) \<Rightarrow> int \<Rightarrow> projectData \<Rightarrow> updateData" where
  "buildUpdateData parse now data =
     \<lparr>upd_name = data_name data,
      upd_phoneNumber = data_phoneNumber data,
      upd_poc = data_poc data,
      upd_type = data_type data,
      upd_affiliatePartner = data_affiliatePartner data,
      upd_category = data_category data,
      upd_status = data_status data,
      upd_activeStage = data_activeStage data,
      upd_lastContacted = updateLastContacted parse (data_lastContacted data),
      upd_hasInvoice = updateHasInvoice (data_hasInvoice data),
      upd_assignedToId = updateAssignedToId (data_assignedToId data),
      upd_updatedAt = now\<rparr>"

text \<open>A key of \<open>.set(...)\<close> on a nullable text column, and on a \<open>notNull\<close> one.\<close>

fun setNullable :: "jstext \<Rightarrow> string option \<Rightarrow> string option" where
  "setNullable TUndefined old = old"
| "setNullable TNull old = None"
| "setNullable (TStr s) old = Some s"

fun setNotNull :: "jstext \<Rightarrow> string \<Rightarrow> string" where
  "setNotNull (TStr s) old = s"
| "setNotNull TUndefined old = old"
| "setNotNull TNull old = old"

definition setRow :: "updateData \<Rightarrow> project \<Rightarrow> project" where
  "setRow u p =
     p\<lparr>p_name := setNotNull (upd_name u) (p_name p),
       p_phoneNumber := setNullable (upd_phoneNumber u) (p_phoneNumber p),
       p_poc := setNullable (upd_poc u) (p_poc p),
       p_type := setNotNull (upd_type u) (p_type p),
       p_affiliatePartner := setNullable (upd_affiliatePartner u) (p_affiliatePartner p),
       p_category := setNullable (upd_category u) (p_category p),
       p_status := setNotNull (upd_status u) (p_status p),
       p_activeStage := setNullable (upd_activeStage u) (p_activeStage p),
       p_lastContacted :=
         (case upd_lastContacted u of
            NotSet \<Rightarrow> p_lastContacted p | NullDate \<Rightarrow> None | ADate d \<Rightarrow> d),
       p_hasInvoice :=
         (case upd_hasInvoice u of None \<Rightarrow> p_hasInvoice p | Some h \<Rightarrow> Some h),
       p_assignedToId :=
         (case upd_assignedToId u of JNum n \<Rightarrow> n | _ \<Rightarrow> p_assignedToId p),
       p_updatedAt := upd_updatedAt u\<rparr>"

text \<open>
  \<open>db.update(projects).set(updateData).where(eq(projects.id, id))\<close>. The timestamp
  column serialises a \<open>Date\<close> with \<open>toISOString\<close>, which throws \<open>RangeError: Invalid
  time value\<close> on an Invalid Date, before the statement is sent. The table then rejects
  \<open>null\<close> in a \<open>notNull\<close> column, a value of \<open>assignedToId\<close> that is not a number, and
  one that is the id of no team member.
\<close>

definition updateProjectRows :: "database \<Rightarrow> int \<Rightarrow> updateData \<Rightarrow> error + database" where
  "updateProjectRows db projectId u =
     (if upd_lastContacted u = ADate None then Inl InvalidTimeValue
      else if upd_name u = TNull \<or> upd_type u = TNull \<or> upd_status u = TNull
      then Inl (ConstraintViolation ''not_null'')
      else if (case upd_assignedToId u of
                 JUndefined \<Rightarrow> False
               | JNum n \<Rightarrow> False
               | _ \<Rightarrow> True)
      then Inl (ConstraintViolation ''assigned_to_id'')
      else if (case upd_assignedToId u of
                 JNum n \<Rightarrow> n \<notin> tm_id ` set (teamMembers db)
               | _ \<Rightarrow> False)
      then Inl (ConstraintViolation ''projects_assigned_to_id_fkey'')
      else Inr (db\<lparr>projects := map (\<lambda>p. if p_id p = projectId then setRow u p else p)
                                    (projects db)\<rparr>))"

definition findProject :: "database \<Rightarrow> int \<Rightarrow> project option" where
  "findProject db projectId = find (\<lambda>p. p_id p = projectId) (projects db)"

text \<open>Lines 304-312: propagation of the last-contacted date after an update.\<close>

definition propagateLastContacted :: "database \<Rightarrow> int \<Rightarrow> project \<Rightarrow> project \<Rightarrow> database" where
  "propagateLastContacted db now currentProject updatedProject =
     (if truthyId (p_clientId updatedProject) \<and> p_lastContacted updatedProject \<noteq> None \<and>
         (p_lastContacted currentProject = None \<or>
          the (p_lastContacted updatedProject) \<noteq> the (p_lastContacted currentProject))
      then updateClientLastContacted db (the (p_clientId updatedProject))
             (the (p_lastContacted updatedProject)) now
      else db)"

text \<open>Lines 314-317: propagation of the status after an update.\<close>

definition propagateStatus :: "database \<Rightarrow> int \<Rightarrow> project \<Rightarrow> project \<Rightarrow> database" where
  "propagateStatus db now currentProject updatedProject =
     (if truthyId (p_clientId updatedProject) \<and> p_status updatedProject \<noteq> p_status currentProject
      then updateClientStatus db (the (p_clientId updatedProject)) (p_status updatedProject) now
      else db)"

definition updateProject ::
  "(string \<Rightarrow> int option) \<Rightarrow> database \<Rightarrow> int \<Rightarrow> int \<Rightarrow> projectData \<Rightarrow> (error + project) \<times> database" where
  "updateProject parse db now projectId data =
     (case findProject db projectId of
        None \<Rightarrow> (Inl (ProjectNotFound projectId), db)
      | Some currentProject \<Rightarrow>
          (case updateProjectRows db projectId (buildUpdateData parse now data) of
             Inl e \<Rightarrow> (Inl e, db)
           | Inr db1 \<Rightarrow>
               (let updatedProject = setRow (buildUpdateData parse now data) currentProject;
                    db2 = propagateLastContacted db1 now currentProject updatedProject;
                    db3 = propagateStatus db2 now currentProject updatedProject
                in (Inr updatedProject, db3))))"

section \<open>The project routes (\<open>server/routes.ts\<close>)\<close>

text \<open>Lines 104-122 and 157-175: the conversion of \<open>data.lastContacted\<close>.\<close>

definition routeLastContacted :: "(string \<Rightarrow> int option) \<Rightarrow> jsval \<Rightarrow> jsval" where
  "routeLastContacted parse v =
     (if truthy v then
        (case v of
           JStr s \<Rightarrow> (case newDate parse s of Some t \<Rightarrow> JDate (Some t) | None \<Rightarrow> JNull)
         | _ \<Rightarrow> v)
      else v)"

text \<open>Lines 124-139 and 177-192: the conversion of \<open>data.hasInvoice\<close>.\<close>

definition routeHasInvoice :: "jsval \<Rightarrow> jsval" where
  "routeHasInvoice v =
     (if v \<noteq> JUndefined then
        (case v of
           JBool b \<Rightarrow> JStr (if b then ''yes'' else ''no'')
         | JNum n \<Rightarrow> JStr (if n > 0 then ''yes'' else ''no'')
         | JNaN \<Rightarrow> JStr ''no''
         | JStr s \<Rightarrow>
             (if toLowerCase s = ''true'' then JStr ''yes''
              else if toLowerCase s = ''false'' then JStr ''no''
              else v)
         | _ \<Rightarrow> v)
      else v)"

definition routeData :: "(string \<Rightarrow> int option) \<Rightarrow> projectData \<Rightarrow> projectData" where
  "routeData parse body =
     body\<lparr>data_lastContacted := routeLastContacted parse (data_lastContacted body),
          data_hasInvoice := routeHasInvoice (data_hasInvoice body)\<rparr>"

datatype response =
    Created project
  | Ok project
  | BadRequest "string list"
  | InternalServerError

text \<open>\<open>handleValidationError\<close>: a \<open>ZodError\<close> is a 400, anything else a 500.\<close>

fun handleValidationError :: "error \<Rightarrow> response" where
  "handleValidationError (ZodError issues) = BadRequest issues"
| "handleValidationError e = InternalServerError"

text \<open>\<open>POST /api/projects\<close>\<close>

definition postProject ::
  "(string \<Rightarrow> int option) \<Rightarrow> database \<Rightarrow> int \<Rightarrow> projectData \<Rightarrow> response \<times> database" where
  "postProject parse db now body =
     (case createProject parse db now (routeData parse body) of
        (Inr project, db1) \<Rightarrow> (Created project, db1)
      | (Inl err, db1) \<Rightarrow> (handleValidationError err, db1))"

text \<open>\<open>PATCH /api/projects/:id\<close>, with the id already read by \<open>parseInt\<close>.\<close>

definition patchProject ::
  "(string \<Rightarrow> int option) \<Rightarrow> database \<Rightarrow> int \<Rightarrow> int \<Rightarrow> projectData \<Rightarrow> response \<times> database" where
  "patchProject parse db now projectId body =
     (case updateProject parse db now projectId (routeData parse body) of
        (Inr project, db1) \<Rightarrow> (Ok project, db1)
      | (Inl err, db1) \<Rightarrow> (handleValidationError err, db1))"

section \<open>Queries\<close>

text \<open>\<open>getTeamMembers\<close>: \<open>orderBy: asc(teamMembers.name)\<close>.\<close>

definition getTeamMembers :: "database \<Rightarrow> teamMember list" where
  "getTeamMembers db = sort_key tm_name (teamMembers db)"

text \<open>\<open>orderBy: desc(projects.updatedAt)\<close>\<close>

definition byUpdatedAtDesc :: "project list \<Rightarrow> project list" where
  "byUpdatedAtDesc ps = sort_key (\<lambda>p. - p_updatedAt p) ps"

text \<open>\<open>getProjectsByClientId\<close>\<close>

definition getProjectsByClientId :: "database \<Rightarrow> int \<Rightarrow> project list" where
  "getProjectsByClientId db clientId =
     byUpdatedAtDesc (filter (\<lambda>p. p_clientId p = Some clientId) (projects db))"

text \<open>\<open>getDocumentsByClientId\<close>: \<open>orderBy: desc(documents.createdAt)\<close>.\<close>

definition getDocumentsByClientId :: "database \<Rightarrow> int \<Rightarrow> document list" where
  "getDocumentsByClientId db clientId =
     sort_key (\<lambda>d. - doc_createdAt d) (filter (\<lambda>d. doc_clientId d = clientId) (documents db))"

section \<open>\<open>getProjects\<close>\<close>


text \<open>
  The calls into \<open>date-fns\<close> and the \<open>Date\<close> constructor that \<open>getProjects\<close> makes
  on \<open>today = new Date()\<close>; they depend on the time zone of the server and are
  parameters of the model: \<open>todayDate\<close> is \<open>new Date(format(today, 'yyyy-MM-dd'))\<close>.
\<close>

record calendar =
  todayDate :: "int \<Rightarrow> int"
  startOfWeek :: "int \<Rightarrow> int"
  startOfMonth :: "int \<Rightarrow> int"
  startOfQuarter :: "int \<Rightarrow> int"




text \<open>
  The calendar of a server whose time zone is UTC. Day 0 is Thursday 1 January 1970 and
  weeks start on Sunday; the civil date of a day number is computed over 400-year eras
  starting on 1 March.
\<close>

definition msPerDay :: int where
  "msPerDay = 86400000"




section \<open>\<open>getProjectStats\<close>: pending follow-ups\<close>

text \<open>
  The \<open>where\<close> clause is evaluated by SQL: a comparison with \<open>NULL\<close> is unknown
  (\<open>None\<close>), \<open>or\<close> and \<open>and\<close> are three-valued, and a row is counted when the clause
  is true.
\<close>

definition sqlLt :: "int option \<Rightarrow> int \<Rightarrow> bool option" where
  "sqlLt a b = map_option (\<lambda>x. x < b) a"

definition sqlEq :: "string option \<Rightarrow> string \<Rightarrow> bool option" where
  "sqlEq a b = map_option (\<lambda>x. x = b) a"

fun sqlOr :: "bool option \<Rightarrow> bool option \<Rightarrow> bool option" where
  "sqlOr (Some True) b = Some True"
| "sqlOr a (Some True) = Some True"
| "sqlOr (Some False) (Some False) = Some False"
| "sqlOr a b = None"

fun sqlAnd :: "bool option \<Rightarrow> bool option \<Rightarrow> bool option" where
  "sqlAnd (Some False) b = Some False"
| "sqlAnd a (Some False) = Some False"
| "sqlAnd (Some True) (Some True) = Some True"
| "sqlAnd a b = None"

text \<open>
  Lines 597-610: the \<open>pendingFollowups\<close> field of the result of \<open>getProjectStats\<close>.
  \<open>subDays\<close> is the function of \<open>date-fns\<close>: it moves the calendar date of the server's
  time zone, so it depends on that zone and is a parameter of the model.
\<close>

definition pendingFollowups :: "(int \<Rightarrow> int \<Rightarrow> int) \<Rightarrow> database \<Rightarrow> int \<Rightarrow> nat" where
  "pendingFollowups subDays db now =
     (let oneWeekAgo = subDays now 7
      in length (filter
           (\<lambda>p. sqlAnd (sqlEq (Some (p_status p)) ''active'')
                        (sqlOr (sqlLt (p_lastContacted p) oneWeekAgo)
                               (Some (p_lastContacted p = None))) = Some True)
           (projects db)))"

text \<open>
  \<open>subDays(date, n)\<close> in a given time zone. \<open>date-fns\<close> computes it as
  \<open>setDate(getDate() - n)\<close> on the local fields of the date: the local time of \<open>date\<close>
  goes back by \<open>n\<close> days of 86400000 ms, keeping the time of day, and is read back as
  an instant. The zone is given by its offset from UTC, in ms, at an instant
  (\<open>offsetAt\<close>) and at a local time (\<open>offsetOfLocal\<close>).
\<close>

definition subDaysIn :: "(int \<Rightarrow> int) \<Rightarrow> (int \<Rightarrow> int) \<Rightarrow> int \<Rightarrow> int \<Rightarrow> int" where
  "subDaysIn offsetAt offsetOfLocal date n =
     (let local = date + offsetAt date - n * msPerDay
      in local - offsetOfLocal local)"

text \<open>A server whose time zone is UTC.\<close>

definition utcSubDays :: "int \<Rightarrow> int \<Rightarrow> int" where
  "utcSubDays = subDaysIn (\<lambda>t. 0) (\<lambda>local. 0)"

text \<open>
  A server in the Central European zone, around its clock change of 27 October 2024:
  the offset is 2 hours before 01:00 UTC of that day (1729990800000) and 1 hour from
  then on; the local hour that occurs twice is read with the earlier offset.
\<close>

definition berlinOffsetAt :: "int \<Rightarrow> int" where
  "berlinOffsetAt t = (if t < 1729990800000 then 7200000 else 3600000)"

definition berlinOffsetOfLocal :: "int \<Rightarrow> int" where
  "berlinOffsetOfLocal local = (if local < 1729990800000 + 7200000 then 7200000 else 3600000)"

definition berlinSubDays :: "int \<Rightarrow> int \<Rightarrow> int" where
  "berlinSubDays = subDaysIn berlinOffsetAt berlinOffsetOfLocal"

section \<open>\<open>deleteClient\<close>\<close>

text \<open>
  The files under the upload directory: a path is missing, holds a file that can be
  removed, or holds one whose removal fails (\<open>unlinkSync\<close> throws).
\<close>

datatype fileState = Missing | Removable | Locked

type_synonym fileSystem = "string \<Rightarrow> fileState"

text \<open>
  Lines 473-479, the body of the loop: \<open>existsSync\<close> then \<open>unlinkSync\<close> inside
  \<open>try\<close>; the \<open>catch\<close> logs and goes on.
\<close>

definition unlinkIfExists :: "fileSystem \<Rightarrow> string \<Rightarrow> fileSystem" where
  "unlinkIfExists files path =
     (case files path of
        Missing \<Rightarrow> files
      | Removable \<Rightarrow> files(path := Missing)
      | Locked \<Rightarrow> files)"

text \<open>
  \<open>db.delete(clients).where(eq(clients.id, id))\<close>: the foreign keys of \<open>documents\<close> and
  \<open>projects\<close> reject the delete of a client that a row still references.
\<close>

definition deleteClientRow :: "database \<Rightarrow> int \<Rightarrow> error + database" where
  "deleteClientRow db clientId =
     (if (\<exists>c \<in> set (clients db). c_id c = clientId) \<and>
         ((\<exists>d \<in> set (documents db). doc_clientId d = clientId) \<or>
          (\<exists>p \<in> set (projects db). p_clientId p = Some clientId))
      then Inl (ConstraintViolation ''client_id_fkey'')
      else Inr (db\<lparr>clients := filter (\<lambda>c. c_id c \<noteq> clientId) (clients db)\<rparr>))"

definition deleteClient ::
  "database \<Rightarrow> fileSystem \<Rightarrow> int \<Rightarrow> (error + unit) \<times> database \<times> fileSystem" where
  "deleteClient db files clientId =
     (let clientDocs = filter (\<lambda>d. doc_clientId d = clientId) (documents db);
          files1 = foldl unlinkIfExists files (map doc_filePath clientDocs);
          db1 = (if length clientDocs > 0
                 then db\<lparr>documents := filter (\<lambda>d. doc_clientId d \<noteq> clientId) (documents db)\<rparr>
                 else db);
          db2 = db1\<lparr>projects := filter (\<lambda>p. p_clientId p \<noteq> Some clientId) (projects db1)\<rparr>
      in case deleteClientRow db2 clientId of
           Inl e \<Rightarrow> (Inl e, db2, files1)
         | Inr db3 \<Rightarrow> (Inr (), db3, files1))"

section \<open>The list filter, in the words of the specification\<close>

text \<open>
  The four date buckets of the list filter and the start of the current one; any other
  value names no bucket.
\<close>

definition bucketStart :: "calendar \<Rightarrow> int \<Rightarrow> string \<Rightarrow> int option" where
  "bucketStart cal today b =
     (if b = ''today'' then Some (todayDate cal today)
      else if b = ''week'' then Some (startOfWeek cal today)
      else if b = ''month'' then Some (startOfMonth cal today)
      else if b = ''quarter'' then Some (startOfQuarter cal today)
      else None)"


section \<open>Sample data\<close>

text \<open>
  A fragment of the engine's date parser: the one ISO string the samples use
  (2 seconds after the epoch); every other string of the samples is not a date.
\<close>

definition parseSample :: "string \<Rightarrow> int option" where
  "parseSample s = (if s = ''1970-01-01T00:00:02.000Z'' then Some 2000 else None)"

definition sampleProject :: project where
  "sampleProject =
     \<lparr>p_name = ''Acme'', p_phoneNumber = Some '''', p_poc = Some '''', p_type = ''direct'',
      p_affiliatePartner = None, p_category = None, p_lastContacted = Some 1000,
      p_status = ''active'', p_activeStage = None, p_hasInvoice = Some ''yes'',
      p_assignedToId = 1, p_clientId = Some 1, p_createdAt = 1000, p_updatedAt = 1000,
      p_id = 1\<rparr>"

definition sampleClient :: client where
  "sampleClient =
     \<lparr>c_id = 1, c_name = ''Acme'', c_status = ''active'', c_lastContacted = Some 1000,
      c_createdAt = 1000, c_updatedAt = 1000\<rparr>"

text \<open>Two team members: the one inserted first sorts last by name.\<close>

definition sampleDb :: database where
  "sampleDb =
     \<lparr>teamMembers =
        [\<lparr>tm_id = 1, tm_name = ''Zoe Young'', tm_email = ''zoe@example.com'', tm_role = ''Advisor''\<rparr>,
         \<lparr>tm_id = 2, tm_name = ''Adam Reed'', tm_email = ''adam@example.com'', tm_role = ''Analyst''\<rparr>],
      projects = [sampleProject],
      clients = [sampleClient],
      documents =
        [\<lparr>doc_id = 1, doc_name = ''Mandate'', doc_filePath = ''uploads/1/file-1.pdf'',
          doc_clientId = 1, doc_createdAt = 1500\<rparr>],
      nextProjectId = 2,
      nextClientId = 2\<rparr>"

text \<open>A request body with no key set, and one for a direct project named Borealis.\<close>

definition emptyData :: projectData where
  "emptyData =
     \<lparr>data_name = TUndefined, data_phoneNumber = TUndefined, data_poc = TUndefined,
      data_type = TUndefined, data_affiliatePartner = TUndefined, data_category = TUndefined,
      data_status = TUndefined, data_activeStage = TUndefined,
      data_lastContacted = JUndefined, data_hasInvoice = JUndefined,
      data_assignedToId = JUndefined, data_clientId = JUndefined\<rparr>"

definition directData :: projectData where
  "directData = emptyData\<lparr>data_name := TStr ''Borealis'', data_type := TStr ''direct''\<rparr>"

text \<open>Noon of 15 March 2024 (UTC), and a project last contacted ten days later.\<close>

definition sampleNoon :: int where
  "sampleNoon = 1710504000000"



text \<open>
  12:00 UTC of 30 October 2024, three days after the clock change, and an active project
  last contacted 7 days and 1 second before it.
\<close>

definition octoberNoon :: int where
  "octoberNoon = 1730289600000"

definition weekOldDb :: database where
  "weekOldDb =
     sampleDb\<lparr>projects :=
       [sampleProject\<lparr>p_status := ''active'',
                      p_lastContacted := Some (octoberNoon - (7 * 86400000 + 1000))\<rparr>]\<rparr>"

text \<open>A file system in which no file can be removed.\<close>

definition lockedFiles :: fileSystem where
  "lockedFiles = (\<lambda>path. Locked)"

text \<open>A direct project with a status and a contact date given as an ISO string.\<close>

definition contactedData :: projectData where
  "contactedData =
     directData\<lparr>data_status := TStr ''pending'',
                data_lastContacted := JStr ''1970-01-01T00:00:02.000Z''\<rparr>"

section \<open>Last-contacted propagation is a monotonic merge\<close>

lemma find_map_same:
  "find P xs = Some c \<Longrightarrow> (\<And>x. P (f x) = P x) \<Longrightarrow> find P (map f xs) = Some (f c)"
  by (induction xs) (auto split: if_splits)

lemma findClient_id: "findClient db cid = Some c \<Longrightarrow> c_id c = cid"
  unfolding findClient_def by (auto simp: find_Some_iff)

lemma findClient_step:
  assumes "findClient db cid = Some c"
  shows "findClient (updateClientLastContacted db cid d now) cid =
           Some (if (case c_lastContacted c of None \<Rightarrow> True | Some t \<Rightarrow> t < d)
                 then c\<lparr>c_lastContacted := Some d, c_updatedAt := now\<rparr> else c)"
proof (cases "c_lastContacted c = None \<or> d > the (c_lastContacted c)")
  case True
  have "find (\<lambda>c. c_id c = cid)
          (map (\<lambda>c. if c_id c = cid then c\<lparr>c_lastContacted := Some d, c_updatedAt := now\<rparr> else c)
               (clients db))
        = Some ((\<lambda>c. if c_id c = cid then c\<lparr>c_lastContacted := Some d, c_updatedAt := now\<rparr> else c) c)"
    using assms unfolding findClient_def by (intro find_map_same) auto
  then show ?thesis
    using assms True findClient_id[OF assms]
    by (auto simp: updateClientLastContacted_def findClient_def split: option.splits)
next
  case False
  then show ?thesis
    using assms by (auto simp: updateClientLastContacted_def split: option.splits)
qed

lemma findClient_step_later:
  assumes "findClient db cid = Some c"
  shows "\<exists>c'. findClient (updateClientLastContacted db cid d now) cid = Some c' \<and>
              c_lastContacted c' = laterOf (c_lastContacted c) d"
  using findClient_step[OF assms, of d now]
  by (auto simp: laterOf_def split: option.splits)

lemma propagateAll_later:
  "findClient db cid = Some c \<Longrightarrow>
   \<exists>c'. findClient (propagateAll db cid ds) cid = Some c' \<and>
        c_lastContacted c' = foldl laterOf (c_lastContacted c) (map fst ds)"
proof (induction ds arbitrary: db c)
  case Nil
  then show ?case by (simp add: propagateAll_def)
next
  case (Cons x ds)
  obtain d now where x: "x = (d, now)" by (cases x)
  from findClient_step_later[OF Cons.prems, of d now] obtain c1 where
    c1: "findClient (updateClientLastContacted db cid d now) cid = Some c1"
        "c_lastContacted c1 = laterOf (c_lastContacted c) d" by blast
  from Cons.IH[OF c1(1)] c1(2) show ?case
    by (simp add: propagateAll_def x)
qed

lemma foldl_laterOf_Some:
  "foldl laterOf (Some t) xs = Some (Max (insert t (set xs)))"
proof (induction xs arbitrary: t)
  case Nil
  then show ?case by simp
next
  case (Cons x xs)
  have "Max (insert (max t x) (set xs)) = Max (insert t (insert x (set xs)))"
    by (metis List.finite_set Max_insert Max_singleton finite.insertI insert_not_empty max.assoc)
  with Cons show ?case by (simp add: laterOf_def)
qed

lemma foldl_laterOf_Max:
  "xs \<noteq> [] \<Longrightarrow> foldl laterOf cur xs = Some (Max (set xs \<union> set_option cur))"
proof (cases cur)
  case None
  assume "xs \<noteq> []"
  then obtain x xs' where "xs = x # xs'" by (cases xs) auto
  then show ?thesis using None by (simp add: laterOf_def foldl_laterOf_Some)
next
  case (Some t)
  then show ?thesis by (simp add: foldl_laterOf_Some)
qed

text \<open>
  Claim C1. For a client found under \<open>cid\<close>, one call of the propagation helper with
  the candidate \<open>d\<close> overwrites \<open>lastContacted\<close> with \<open>d\<close> and sets \<open>updatedAt\<close> to
  the clock reading exactly when the client has no \<open>lastContacted\<close> or \<open>d\<close> is strictly
  later, and otherwise leaves the client as it was. After any sequence of propagations
  the client's \<open>lastContacted\<close> is the previous value when the sequence is empty and
  otherwise the maximum of the previous value (if any) and the propagated dates; a
  previous value is never followed by an earlier one.
\<close>

theorem lastContacted_propagation_monotonic:
  assumes "findClient db cid = Some c"
  shows "findClient (updateClientLastContacted db cid d now) cid =
           Some (if (case c_lastContacted c of None \<Rightarrow> True | Some t \<Rightarrow> t < d)
                 then c\<lparr>c_lastContacted := Some d, c_updatedAt := now\<rparr> else c)
         \<and> (\<exists>c'. findClient (propagateAll db cid ds) cid = Some c' \<and>
                c_lastContacted c' =
                  (if ds = [] then c_lastContacted c
                   else Some (Max (set (map fst ds) \<union> set_option (c_lastContacted c)))) \<and>
                (case c_lastContacted c of
                   None \<Rightarrow> True
                 | Some t \<Rightarrow> (case c_lastContacted c' of None \<Rightarrow> False | Some t' \<Rightarrow> t \<le> t')))"
proof -
  obtain c' where c': "findClient (propagateAll db cid ds) cid = Some c'"
      "c_lastContacted c' = foldl laterOf (c_lastContacted c) (map fst ds)"
    using propagateAll_later[OF assms, of ds] by blast
  have max: "c_lastContacted c' =
      (if ds = [] then c_lastContacted c
       else Some (Max (set (map fst ds) \<union> set_option (c_lastContacted c))))"
    using c'(2) foldl_laterOf_Max[of "map fst ds" "c_lastContacted c"] by simp
  have mono: "case c_lastContacted c of
                None \<Rightarrow> True
              | Some t \<Rightarrow> (case c_lastContacted c' of None \<Rightarrow> False | Some t' \<Rightarrow> t \<le> t')"
    using c'(2) by (auto simp: foldl_laterOf_Some split: option.splits)
  from findClient_step[OF assms, of d now] c'(1) max mono show ?thesis by blast
qed

theorem lastContacted_propagation_monotonic_witness:
  "findClient sampleDb 1 = Some sampleClient
   \<and> findClient (updateClientLastContacted sampleDb 1 3000 5000) 1 =
       Some (sampleClient\<lparr>c_lastContacted := Some 3000, c_updatedAt := 5000\<rparr>)
   \<and> findClient (updateClientLastContacted sampleDb 1 500 5000) 1 = Some sampleClient
   \<and> (\<exists>c'. findClient (propagateAll sampleDb 1 [(3000, 5000), (500, 6000), (2000, 7000)]) 1 = Some c'
          \<and> c_lastContacted c' = Some 3000)"
proof -
  have h: "findClient sampleDb 1 = Some sampleClient"
    by (simp add: findClient_def sampleDb_def sampleClient_def)
  have lc: "c_lastContacted sampleClient = Some 1000"
    by (simp add: sampleClient_def)
  from lastContacted_propagation_monotonic[OF h, of 3000 5000 "[(3000, 5000), (500, 6000), (2000, 7000)]"]
       lastContacted_propagation_monotonic[OF h, of 500 5000 "[]"]
  show ?thesis using h lc by auto
qed

section \<open>\<open>createProject\<close>: the client of a direct project\<close>

lemma find_append_last:
  "(\<And>x. x \<in> set xs \<Longrightarrow> \<not> P x) \<Longrightarrow> P y \<Longrightarrow> find P (xs @ [y]) = Some y"
  by (induction xs) auto

lemma updateClientLastContacted_same:
  "findClient db cid = Some c \<Longrightarrow> c_lastContacted c = Some d \<Longrightarrow>
   updateClientLastContacted db cid d now = db"
  by (simp add: updateClientLastContacted_def)

lemma extend_sel [simp]:
  "p_name (projectValues.extend v (project.fields n)) = p_name v"
  "p_type (projectValues.extend v (project.fields n)) = p_type v"
  "p_status (projectValues.extend v (project.fields n)) = p_status v"
  "p_lastContacted (projectValues.extend v (project.fields n)) = p_lastContacted v"
  "p_hasInvoice (projectValues.extend v (project.fields n)) = p_hasInvoice v"
  "p_assignedToId (projectValues.extend v (project.fields n)) = p_assignedToId v"
  "p_clientId (projectValues.extend v (project.fields n)) = p_clientId v"
  "p_id (projectValues.extend v (project.fields n)) = n"
  by (simp_all add: projectValues.defs project.defs)

text \<open>What a successful createProject went through.\<close>

lemma createProject_InrE:
  assumes "createProject parse db now data = (Inr p, db')"
  obtains v v' db1 where
    "projectInsertSchema_parse (buildInsertData parse now data) = Inr v"
    "associateClient db now data (buildInsertData parse now data) v = (Inr v', db1)"
    "insertProject db1 v' = (Inr p, db1\<lparr>nextProjectId := nextProjectId db1 + 1, projects := projects db1 @ [p]\<rparr>)"
    "p = projectValues.extend v' (project.fields (nextProjectId db1))"
    "db' = (if truthyId (p_clientId p) \<and> p_lastContacted p \<noteq> None
            then updateClientLastContacted (db1\<lparr>nextProjectId := nextProjectId db1 + 1, projects := projects db1 @ [p]\<rparr>)
                   (the (p_clientId p)) (the (p_lastContacted p)) now
            else db1\<lparr>nextProjectId := nextProjectId db1 + 1, projects := projects db1 @ [p]\<rparr>)"
  using assms
  by (auto simp: createProject_def insertProject_def Let_def
           split: sum.splits prod.splits if_splits)


lemma associateClient_direct:
  assumes "data_type data = TStr ''direct''" "\<not> truthy (data_clientId data)"
      "data_name data = TStr name" "name \<noteq> []"
      "associateClient db now data i v = (Inr v', db1)"
  shows "nextClientId db \<notin> c_id ` set (clients db)
       \<and> v' = v\<lparr>p_clientId := Some (nextClientId db)\<rparr>
       \<and> clients db1 = clients db @
            [\<lparr>c_id = nextClientId db, c_name = name,
              c_status = orElse (data_status data) ''active'',
              c_lastContacted = (case ins_lastContacted i of ADate d \<Rightarrow> d | _ \<Rightarrow> None),
              c_createdAt = now, c_updatedAt = now\<rparr>]
       \<and> projects db1 = projects db \<and> teamMembers db1 = teamMembers db"
  using assms
  by (auto simp: associateClient_def insertClient_def Let_def split: if_splits)

lemma parse_fields:
  assumes "projectInsertSchema_parse i = Inr v"
  shows "p_name v = ins_name i" "p_status v = ins_status i" "p_type v = ins_type i"
    "p_lastContacted v = (case ins_lastContacted i of ADate d \<Rightarrow> d | _ \<Rightarrow> None)"
    "p_hasInvoice v = Some (ins_hasInvoice i)" "p_clientId v = None"
    "ins_assignedToId i = JNum (p_assignedToId v)"
    "schemaIssues i = []"
  using assms
  by (auto simp: projectInsertSchema_parse_def schemaIssues_def split: if_splits jsval.splits)

text \<open>
  Claim C2. When \<open>createProject\<close> succeeds on an input whose type is \<open>direct\<close>, whose
  \<open>clientId\<close> is falsy and whose name is a non-empty string, exactly one client has
  been added: it carries the next id of the client sequence, the project's name, the
  project's status and the project's (possibly null) \<open>lastContacted\<close>; the returned
  project is persisted and its \<open>clientId\<close> is that new id.
\<close>

theorem createProject_direct_creates_client:
  assumes "data_type data = TStr ''direct''"
      and "\<not> truthy (data_clientId data)"
      and "data_name data = TStr name" and "name \<noteq> []"
      and "createProject parse db now data = (Inr p, db')"
  shows "clients db' = clients db @
           [\<lparr>c_id = nextClientId db, c_name = name, c_status = p_status p,
             c_lastContacted = p_lastContacted p, c_createdAt = now, c_updatedAt = now\<rparr>]
       \<and> nextClientId db \<notin> c_id ` set (clients db)
       \<and> p_clientId p = Some (nextClientId db)
       \<and> p_name p = name
       \<and> p \<in> set (projects db')"
proof -
  let ?i = "buildInsertData parse now data"
  from assms(5) obtain v v' db1 where
    v: "projectInsertSchema_parse ?i = Inr v" and
    a: "associateClient db now data ?i v = (Inr v', db1)" and
    p: "p = projectValues.extend v' (project.fields (nextProjectId db1))" and
    db': "db' = (if truthyId (p_clientId p) \<and> p_lastContacted p \<noteq> None
            then updateClientLastContacted (db1\<lparr>nextProjectId := nextProjectId db1 + 1, projects := projects db1 @ [p]\<rparr>)
                   (the (p_clientId p)) (the (p_lastContacted p)) now
            else db1\<lparr>nextProjectId := nextProjectId db1 + 1, projects := projects db1 @ [p]\<rparr>)"
    by (rule createProject_InrE) blast
  let ?db2 = "db1\<lparr>nextProjectId := nextProjectId db1 + 1, projects := projects db1 @ [p]\<rparr>"
  let ?c = "\<lparr>c_id = nextClientId db, c_name = name, c_status = p_status p,
             c_lastContacted = p_lastContacted p, c_createdAt = now, c_updatedAt = now\<rparr>"
  from associateClient_direct[OF assms(1-4) a] have
    fresh: "nextClientId db \<notin> c_id ` set (clients db)" and
    v': "v' = v\<lparr>p_clientId := Some (nextClientId db)\<rparr>" and
    cl: "clients db1 = clients db @
            [\<lparr>c_id = nextClientId db, c_name = name,
              c_status = orElse (data_status data) ''active'',
              c_lastContacted = (case ins_lastContacted ?i of ADate d \<Rightarrow> d | _ \<Rightarrow> None),
              c_createdAt = now, c_updatedAt = now\<rparr>]"
    by blast+
  have st: "p_status p = orElse (data_status data) ''active''"
    using p v' parse_fields(2)[OF v] by (simp add: buildInsertData_def)
  have lc: "p_lastContacted p = (case ins_lastContacted ?i of ADate d \<Rightarrow> d | _ \<Rightarrow> None)"
    using p v' parse_fields(4)[OF v] by simp
  have nm: "p_name p = name"
    using p v' parse_fields(1)[OF v] assms(3,4) by (simp add: buildInsertData_def)
  have cid: "p_clientId p = Some (nextClientId db)"
    using p v' by simp
  have cl2: "clients ?db2 = clients db @ [?c]"
    using cl st lc by simp
  have found: "findClient ?db2 (nextClientId db) = Some ?c"
    unfolding findClient_def cl2 using fresh by (intro find_append_last) force+
  have same: "db' = ?db2 \<or> db' = updateClientLastContacted ?db2 (nextClientId db) (the (p_lastContacted p)) now \<and> p_lastContacted p \<noteq> None"
    using db' cid by (auto split: if_splits)
  have "clients db' = clients ?db2"
  proof -
    { assume ne: "p_lastContacted p \<noteq> None"
      then obtain t where t: "p_lastContacted p = Some t" by auto
      have "updateClientLastContacted ?db2 (nextClientId db) t now = ?db2"
        using found t by (intro updateClientLastContacted_same[where c = ?c]) auto
      then have "updateClientLastContacted ?db2 (nextClientId db) (the (p_lastContacted p)) now = ?db2"
        using t by simp }
    with same show ?thesis by auto
  qed
  moreover have "p \<in> set (projects db')"
  proof -
    have "projects (updateClientLastContacted ?db2 c d now) = projects ?db2" for c d
      by (simp add: updateClientLastContacted_def split: option.splits)
    with same show ?thesis by auto
  qed
  ultimately show ?thesis using cl2 fresh cid nm by simp
qed

theorem createProject_direct_creates_client_witness:
  "clients (snd (createProject parseSample sampleDb 5000 contactedData)) =
     [sampleClient,
      \<lparr>c_id = 2, c_name = ''Borealis'', c_status = ''pending'', c_lastContacted = Some 2000,
       c_createdAt = 5000, c_updatedAt = 5000\<rparr>]
   \<and> map_sum id p_clientId (fst (createProject parseSample sampleDb 5000 contactedData)) = Inr (Some 2)"
proof -
  have ok: "\<not> isl (fst (createProject parseSample sampleDb 5000 contactedData))"
    by code_simp
  then obtain p db' where h: "createProject parseSample sampleDb 5000 contactedData = (Inr p, db')"
    by (cases "createProject parseSample sampleDb 5000 contactedData";
        cases "fst (createProject parseSample sampleDb 5000 contactedData)") auto
  have st: "map_sum id p_status (fst (createProject parseSample sampleDb 5000 contactedData)) = Inr ''pending''"
    by code_simp
  have lc: "map_sum id p_lastContacted (fst (createProject parseSample sampleDb 5000 contactedData)) = Inr (Some 2000)"
    by code_simp
  have a: "data_type contactedData = TStr ''direct''" "\<not> truthy (data_clientId contactedData)"
    "data_name contactedData = TStr ''Borealis''" "''Borealis'' \<noteq> []"
    by (simp_all add: contactedData_def directData_def emptyData_def)
  from createProject_direct_creates_client[OF a h] st lc h
  show ?thesis by (simp add: sampleDb_def)
qed

lemma insertProject_succeeds:
  assumes "nextProjectId db \<notin> p_id ` set (projects db)"
      and "p_assignedToId v \<in> tm_id ` set (teamMembers db)"
      and "case p_clientId v of None \<Rightarrow> True | Some c \<Rightarrow> c \<in> c_id ` set (clients db)"
  shows "\<exists>p db'. insertProject db v = (Inr p, db')"
  using assms by (cases "p_clientId v") (simp_all add: insertProject_def Let_def)

lemma associateClient_succeeds:
  assumes "nextClientId db \<notin> c_id ` set (clients db)"
  shows "\<exists>v' db1. associateClient db now data i v = (Inr v', db1)
           \<and> projects db1 = projects db \<and> teamMembers db1 = teamMembers db
           \<and> p_assignedToId v' = p_assignedToId v
           \<and> (p_clientId v' = p_clientId v \<and> clients db1 = clients db
              \<or> p_clientId v' = Some (nextClientId db) \<and> nextClientId db \<in> c_id ` set (clients db1))"
  using assms by (simp add: associateClient_def insertClient_def Let_def)

text \<open>
  \<open>createProject\<close> succeeds on every input that passes the schema, names an existing
  team member and meets fresh serial ids.
\<close>

lemma createProject_succeeds:
  assumes "schemaIssues (buildInsertData parse now data) = []"
      and "ins_assignedToId (buildInsertData parse now data) = JNum n"
      and "n \<in> tm_id ` set (teamMembers db)"
      and "nextClientId db \<notin> c_id ` set (clients db)"
      and "nextProjectId db \<notin> p_id ` set (projects db)"
  shows "\<exists>p db'. createProject parse db now data = (Inr p, db')"
proof -
  let ?i = "buildInsertData parse now data"
  obtain v where v: "projectInsertSchema_parse ?i = Inr v"
    using assms(1) by (simp add: projectInsertSchema_parse_def)
  have vn: "p_assignedToId v = n" and vc: "p_clientId v = None"
    using parse_fields(6,7)[OF v] assms(2) by simp_all
  from associateClient_succeeds[OF assms(4), of now data ?i v] obtain v' db1 where
    a: "associateClient db now data ?i v = (Inr v', db1)" and
    keep: "projects db1 = projects db" "teamMembers db1 = teamMembers db"
          "p_assignedToId v' = p_assignedToId v" and
    cl: "p_clientId v' = p_clientId v \<and> clients db1 = clients db
         \<or> p_clientId v' = Some (nextClientId db) \<and> nextClientId db \<in> c_id ` set (clients db1)"
    by blast
  have np: "nextProjectId db1 = nextProjectId db"
    using a by (auto simp: associateClient_def insertClient_def Let_def split: if_splits)
  have "\<exists>p db'. insertProject db1 v' = (Inr p, db')"
  proof (rule insertProject_succeeds)
    show "nextProjectId db1 \<notin> p_id ` set (projects db1)"
      using assms(5) keep(1) np by simp
    show "p_assignedToId v' \<in> tm_id ` set (teamMembers db1)"
      using assms(3) keep(2,3) vn by simp
    show "case p_clientId v' of None \<Rightarrow> True | Some c \<Rightarrow> c \<in> c_id ` set (clients db1)"
      using cl vc by auto
  qed
  then obtain p db2 where "insertProject db1 v' = (Inr p, db2)" by blast
  with v a show ?thesis by (simp add: createProject_def Let_def)
qed

section \<open>\<open>createProject\<close>: an absent type\<close>

lemma associateClient_untyped:
  "data_type data = TUndefined \<Longrightarrow> associateClient db now data i v = (Inr v, db)"
  by (simp add: associateClient_def)

text \<open>
  Claim C10. When \<open>data.type\<close> is undefined, \<open>createProject\<close> leaves the clients table
  as it was, whether it succeeds or fails, and a project it returns is persisted with
  the default type \<open>direct\<close> and a null \<open>clientId\<close>: the association branch compares the
  raw \<open>data.type\<close> with \<open>direct\<close>, not the defaulted value that is inserted.
\<close>

theorem createProject_absent_type_no_client:
  assumes "data_type data = TUndefined"
  shows "clients (snd (createProject parse db now data)) = clients db
       \<and> (case fst (createProject parse db now data) of
            Inl e \<Rightarrow> True
          | Inr p \<Rightarrow> p_type p = ''direct'' \<and> p_clientId p = None
                     \<and> p \<in> set (projects (snd (createProject parse db now data))))"
proof (cases "projectInsertSchema_parse (buildInsertData parse now data)")
  case (Inl e)
  then show ?thesis by (simp add: createProject_def)
next
  case (Inr v)
  have ty: "p_type v = ''direct''" and cl: "p_clientId v = None"
    using parse_fields(3,6)[OF Inr] assms by (simp_all add: buildInsertData_def)
  show ?thesis
    using Inr ty cl associateClient_untyped[OF assms]
    by (auto simp: createProject_def insertProject_def Let_def split: sum.splits)
qed

theorem createProject_absent_type_no_client_witness:
  "clients (snd (createProject parseSample sampleDb 5000 (emptyData\<lparr>data_name := TStr ''Borealis''\<rparr>)))
     = [sampleClient]
   \<and> map_sum id (\<lambda>p. (p_type p, p_clientId p))
        (fst (createProject parseSample sampleDb 5000 (emptyData\<lparr>data_name := TStr ''Borealis''\<rparr>)))
     = Inr (''direct'', None)"
proof -
  let ?d = "emptyData\<lparr>data_name := TStr ''Borealis''\<rparr>"
  have ok: "\<not> isl (fst (createProject parseSample sampleDb 5000 ?d))"
    by code_simp
  then obtain p where p: "fst (createProject parseSample sampleDb 5000 ?d) = Inr p"
    by (cases "fst (createProject parseSample sampleDb 5000 ?d)") auto
  have a: "data_type ?d = TUndefined" by (simp add: emptyData_def)
  from createProject_absent_type_no_client[OF a, of parseSample sampleDb 5000] p
  show ?thesis by (simp add: sampleDb_def)
qed

section \<open>\<open>createProject\<close>: the assignee\<close>

text \<open>
  Claim C9, as the code has it. When \<open>createProject\<close> succeeds: an omitted
  \<open>assignedToId\<close> gives the persisted project the constant id 1, whatever the team
  members are; a string is read by \<open>parseInt\<close> and the project carries the integer it
  yields; a non-zero number is used as it is. In every case the id is that of an
  existing team member (the foreign key), but not necessarily of the first one in name
  order.
\<close>

theorem createProject_assignedToId:
  assumes "createProject parse db now data = (Inr p, db')"
  shows "(data_assignedToId data = JUndefined \<longrightarrow> p_assignedToId p = 1)
       \<and> (\<forall>s. data_assignedToId data = JStr s \<longrightarrow> parseInt s = Some (p_assignedToId p))
       \<and> (\<forall>n. data_assignedToId data = JNum n \<and> n \<noteq> 0 \<longrightarrow> p_assignedToId p = n)
       \<and> p_assignedToId p \<in> tm_id ` set (teamMembers db)"
proof -
  let ?i = "buildInsertData parse now data"
  from assms obtain v v' db1 where
    v: "projectInsertSchema_parse ?i = Inr v" and
    a: "associateClient db now data ?i v = (Inr v', db1)" and
    ins: "insertProject db1 v' = (Inr p, db1\<lparr>nextProjectId := nextProjectId db1 + 1, projects := projects db1 @ [p]\<rparr>)" and
    p: "p = projectValues.extend v' (project.fields (nextProjectId db1))"
    by (rule createProject_InrE) blast
  have v': "p_assignedToId v' = p_assignedToId v" "teamMembers db1 = teamMembers db"
    using a by (auto simp: associateClient_def insertClient_def Let_def split: if_splits)
  have "insertAssignedToId (data_assignedToId data) = JNum (p_assignedToId p)"
    using parse_fields(7)[OF v] v' p by (simp add: buildInsertData_def)
  moreover have "p_assignedToId p \<in> tm_id ` set (teamMembers db)"
    using ins v' p by (auto simp: insertProject_def Let_def split: if_splits)
  ultimately show ?thesis
    by (auto simp: insertAssignedToId_def split: jsval.splits option.splits if_splits)
qed

theorem createProject_assignedToId_witness:
  "map_sum id p_assignedToId
     (fst (createProject parseSample sampleDb 5000 (directData\<lparr>data_assignedToId := JStr ''2''\<rparr>)))
   = Inr 2"
proof -
  let ?d = "directData\<lparr>data_assignedToId := JStr ''2''\<rparr>"
  have ok: "\<not> isl (fst (createProject parseSample sampleDb 5000 ?d))"
    by code_simp
  then obtain p db' where h: "createProject parseSample sampleDb 5000 ?d = (Inr p, db')"
    by (cases "createProject parseSample sampleDb 5000 ?d";
        cases "fst (createProject parseSample sampleDb 5000 ?d)") auto
  have two: "parseInt ''2'' = Some 2" by code_simp
  have "data_assignedToId ?d = JStr ''2''" by simp
  with createProject_assignedToId[OF h] two h show ?thesis by simp
qed

text \<open>
  With team members Zoe Young (id 1) and Adam Reed (id 2), a project created without
  \<open>assignedToId\<close> is assigned to id 1, while the first team member in name order has
  id 2.
\<close>

theorem createProject_assignedToId_counterexample:
  "map_sum id p_assignedToId (fst (createProject parseSample sampleDb 5000 directData)) = Inr 1
   \<and> map tm_id (getTeamMembers sampleDb) = [2, 1]
   \<and> tm_id (hd (getTeamMembers sampleDb)) = 2"
  by code_simp

section \<open>The coercion of \<open>hasInvoice\<close>\<close>

lemma lower_yes_no:
  "toLowerCase ''yes'' = ''yes''" "toLowerCase ''no'' = ''no''"
  by code_simp+

lemma coerceHasInvoice_idem: "coerceHasInvoice (JStr (coerceHasInvoice v)) = coerceHasInvoice v"
  by (cases v) (auto simp: lower_yes_no)

lemma insertHasInvoice_eq: "insertHasInvoice v = coerceHasInvoice v"
  by (cases v) (simp_all add: insertHasInvoice_def)

lemma createProject_hasInvoice:
  assumes "createProject parse db now data = (Inr p, db')"
  shows "p_hasInvoice p = Some (coerceHasInvoice (data_hasInvoice data))
       \<and> (coerceHasInvoice (data_hasInvoice data) = ''yes''
          \<or> coerceHasInvoice (data_hasInvoice data) = ''no'')"
proof -
  let ?i = "buildInsertData parse now data"
  from assms obtain v v' db1 where
    v: "projectInsertSchema_parse ?i = Inr v" and
    a: "associateClient db now data ?i v = (Inr v', db1)" and
    p: "p = projectValues.extend v' (project.fields (nextProjectId db1))"
    by (rule createProject_InrE) blast
  have v': "p_hasInvoice v' = p_hasInvoice v"
    using a by (auto simp: associateClient_def insertClient_def Let_def split: if_splits)
  have "p_hasInvoice p = Some (ins_hasInvoice ?i)"
    using parse_fields(5)[OF v] v' p by simp
  moreover have "ins_hasInvoice ?i = ''yes'' \<or> ins_hasInvoice ?i = ''no''"
    using parse_fields(8)[OF v] by (auto simp: schemaIssues_def split: if_splits)
  ultimately show ?thesis
    by (simp add: buildInsertData_def insertHasInvoice_eq)
qed

lemma createProject_hasInvoice_rejected:
  assumes "coerceHasInvoice (data_hasInvoice data) \<noteq> ''yes''"
      and "coerceHasInvoice (data_hasInvoice data) \<noteq> ''no''"
  shows "createProject parse db now data =
           (Inl (ZodError (schemaIssues (buildInsertData parse now data))), db)
       \<and> ''hasInvoice'' \<in> set (schemaIssues (buildInsertData parse now data))"
proof -
  have "''hasInvoice'' \<in> set (schemaIssues (buildInsertData parse now data))"
    using assms by (simp add: schemaIssues_def buildInsertData_def insertHasInvoice_eq)
  moreover from this have "schemaIssues (buildInsertData parse now data) \<noteq> []" by auto
  ultimately show ?thesis
    by (simp add: createProject_def projectInsertSchema_parse_def)
qed

lemma updateProject_InrE:
  assumes "updateProject parse db now pid data = (Inr p', db')"
  obtains p0 db1 where
    "findProject db pid = Some p0"
    "updateProjectRows db pid (buildUpdateData parse now data) = Inr db1"
    "p' = setRow (buildUpdateData parse now data) p0"
    "db' = propagateStatus (propagateLastContacted db1 now p0 p') now p0 p'"
  using assms
  by (auto simp: updateProject_def Let_def split: option.splits sum.splits)

lemma updateProject_hasInvoice:
  assumes "updateProject parse db now pid data = (Inr p', db')"
      and "findProject db pid = Some p0"
  shows "p_hasInvoice p' =
           (if data_hasInvoice data = JUndefined then p_hasInvoice p0
            else Some (coerceHasInvoice (data_hasInvoice data)))"
  using assms
  by (elim updateProject_InrE) (auto simp: setRow_def buildUpdateData_def updateHasInvoice_def)

text \<open>
  Claim C5, as the code has it. The coercion maps \<open>true\<close> to \<open>yes\<close> and \<open>false\<close> to
  \<open>no\<close>, a number to \<open>yes\<close> when it is greater than 0 and to \<open>no\<close> otherwise, a string
  that lower-cases to \<open>true\<close> or \<open>false\<close> to \<open>yes\<close> or \<open>no\<close>, and leaves any other
  string unchanged; it is idempotent on every input. On \<open>createProject\<close> an absent
  value gives \<open>no\<close>, the coerced value is then validated: a project is persisted only
  when the coerced value is \<open>yes\<close> or \<open>no\<close>, and any other string makes the create fail
  with a validation error on \<open>hasInvoice\<close>, the database unchanged. On \<open>updateProject\<close>
  nothing is validated: the coerced value, whatever string it is, is persisted, and an
  absent value leaves the stored one untouched.
\<close>

theorem hasInvoice_coercion:
  "coerceHasInvoice (JBool True) = ''yes'' \<and> coerceHasInvoice (JBool False) = ''no''
   \<and> coerceHasInvoice (JNum n) = (if n > 0 then ''yes'' else ''no'')
   \<and> (toLowerCase s = ''true'' \<longrightarrow> coerceHasInvoice (JStr s) = ''yes'')
   \<and> (toLowerCase s = ''false'' \<longrightarrow> coerceHasInvoice (JStr s) = ''no'')
   \<and> (toLowerCase s \<noteq> ''true'' \<and> toLowerCase s \<noteq> ''false'' \<longrightarrow> coerceHasInvoice (JStr s) = s)
   \<and> insertHasInvoice JUndefined = ''no''
   \<and> updateHasInvoice JUndefined = None
   \<and> coerceHasInvoice (JStr (coerceHasInvoice v)) = coerceHasInvoice v
   \<and> (\<forall>p db'. createProject parse db now data = (Inr p, db') \<longrightarrow>
          p_hasInvoice p = Some (coerceHasInvoice (data_hasInvoice data))
          \<and> (coerceHasInvoice (data_hasInvoice data) = ''yes''
             \<or> coerceHasInvoice (data_hasInvoice data) = ''no''))
   \<and> (coerceHasInvoice (data_hasInvoice data) \<noteq> ''yes''
        \<and> coerceHasInvoice (data_hasInvoice data) \<noteq> ''no'' \<longrightarrow>
          createProject parse db now data =
            (Inl (ZodError (schemaIssues (buildInsertData parse now data))), db)
          \<and> ''hasInvoice'' \<in> set (schemaIssues (buildInsertData parse now data)))
   \<and> (\<forall>p' db' p0. updateProject parse db now pid data = (Inr p', db')
          \<and> findProject db pid = Some p0 \<longrightarrow>
          p_hasInvoice p' =
            (if data_hasInvoice data = JUndefined then p_hasInvoice p0
             else Some (coerceHasInvoice (data_hasInvoice data))))"
proof -
  have a: "coerceHasInvoice (JBool True) = ''yes'' \<and> coerceHasInvoice (JBool False) = ''no''
      \<and> coerceHasInvoice (JNum n) = (if n > 0 then ''yes'' else ''no'')"
    by simp
  have b: "(toLowerCase s = ''true'' \<longrightarrow> coerceHasInvoice (JStr s) = ''yes'')
      \<and> (toLowerCase s = ''false'' \<longrightarrow> coerceHasInvoice (JStr s) = ''no'')
      \<and> (toLowerCase s \<noteq> ''true'' \<and> toLowerCase s \<noteq> ''false'' \<longrightarrow> coerceHasInvoice (JStr s) = s)"
    by simp
  have c: "insertHasInvoice JUndefined = ''no'' \<and> updateHasInvoice JUndefined = None"
    by (simp add: insertHasInvoice_def updateHasInvoice_def)
  have d: "\<forall>p db'. createProject parse db now data = (Inr p, db') \<longrightarrow>
          p_hasInvoice p = Some (coerceHasInvoice (data_hasInvoice data))
          \<and> (coerceHasInvoice (data_hasInvoice data) = ''yes''
             \<or> coerceHasInvoice (data_hasInvoice data) = ''no'')"
    using createProject_hasInvoice by blast
  have e: "coerceHasInvoice (data_hasInvoice data) \<noteq> ''yes''
        \<and> coerceHasInvoice (data_hasInvoice data) \<noteq> ''no'' \<longrightarrow>
          createProject parse db now data =
            (Inl (ZodError (schemaIssues (buildInsertData parse now data))), db)
          \<and> ''hasInvoice'' \<in> set (schemaIssues (buildInsertData parse now data))"
    using createProject_hasInvoice_rejected by blast
  have f: "\<forall>p' db' p0. updateProject parse db now pid data = (Inr p', db')
          \<and> findProject db pid = Some p0 \<longrightarrow>
          p_hasInvoice p' =
            (if data_hasInvoice data = JUndefined then p_hasInvoice p0
             else Some (coerceHasInvoice (data_hasInvoice data)))"
    using updateProject_hasInvoice by blast
  from a b c coerceHasInvoice_idem[of v] d e f show ?thesis
    by (intro conjI) (erule conjunct1 conjunct2 | assumption | (drule conjunct2, erule conjunct1 conjunct2))+
qed

theorem hasInvoice_coercion_witness:
  "coerceHasInvoice (JStr ''TRUE'') = ''yes''
   \<and> coerceHasInvoice (JStr ''maybe'') = ''maybe''
   \<and> map_sum id p_hasInvoice
         (fst (createProject parseSample sampleDb 5000 (directData\<lparr>data_hasInvoice := JBool True\<rparr>)))
       = Inr (Some ''yes'')
   \<and> map_sum id p_hasInvoice
         (fst (updateProject parseSample sampleDb 5000 1 (emptyData\<lparr>data_hasInvoice := JStr ''maybe''\<rparr>)))
       = Inr (Some ''maybe'')"
proof -
  let ?c = "directData\<lparr>data_hasInvoice := JBool True\<rparr>"
  let ?u = "emptyData\<lparr>data_hasInvoice := JStr ''maybe''\<rparr>"
  have l1: "toLowerCase ''TRUE'' = ''true''" by code_simp
  have l2: "toLowerCase ''maybe'' \<noteq> ''true'' \<and> toLowerCase ''maybe'' \<noteq> ''false''" by code_simp
  have "\<not> isl (fst (createProject parseSample sampleDb 5000 ?c))" by code_simp
  then obtain p db' where c: "createProject parseSample sampleDb 5000 ?c = (Inr p, db')"
    by (cases "createProject parseSample sampleDb 5000 ?c";
        cases "fst (createProject parseSample sampleDb 5000 ?c)") auto
  have "\<not> isl (fst (updateProject parseSample sampleDb 5000 1 ?u))" by code_simp
  then obtain p' db'' where u: "updateProject parseSample sampleDb 5000 1 ?u = (Inr p', db'')"
    by (cases "updateProject parseSample sampleDb 5000 1 ?u";
        cases "fst (updateProject parseSample sampleDb 5000 1 ?u)") auto
  have f: "findProject sampleDb 1 = Some sampleProject"
    by (simp add: findProject_def sampleDb_def sampleProject_def)
  have c1: "p_hasInvoice p = Some ''yes''"
    using hasInvoice_coercion[of 0 "''TRUE''" JNull parseSample sampleDb 5000 ?c 1] c by simp
  have u1: "p_hasInvoice p' = Some ''maybe''"
    using hasInvoice_coercion[of 0 "''maybe''" JNull parseSample sampleDb 5000 ?u 1] u f l2 by simp
  have s1: "coerceHasInvoice (JStr ''TRUE'') = ''yes''"
    using hasInvoice_coercion[of 0 "''TRUE''" JNull parseSample sampleDb 5000 ?c 1] l1 by blast
  have s2: "coerceHasInvoice (JStr ''maybe'') = ''maybe''"
    using hasInvoice_coercion[of 0 "''maybe''" JNull parseSample sampleDb 5000 ?u 1] l2 by blast
  show ?thesis using c u c1 u1 s1 s2 by simp
qed

text \<open>
  A create with \<open>hasInvoice: "maybe"\<close> is rejected by the schema and persists nothing;
  an update without \<open>hasInvoice\<close> keeps the stored \<open>yes\<close>.
\<close>

theorem hasInvoice_coercion_counterexample:
  "createProject parseSample sampleDb 5000 (directData\<lparr>data_hasInvoice := JStr ''maybe''\<rparr>)
     = (Inl (ZodError [''hasInvoice'']), sampleDb)
   \<and> map_sum id p_hasInvoice (fst (updateProject parseSample sampleDb 5000 1 emptyData))
     = Inr (Some ''yes'')"
  by code_simp

section \<open>\<open>updateProject\<close>: status propagation\<close>

lemma updateProjectRows_clients:
  "updateProjectRows db pid u = Inr db1 \<Longrightarrow>
   clients db1 = clients db \<and>
   projects db1 = map (\<lambda>p. if p_id p = pid then setRow u p else p) (projects db)"
  by (auto simp: updateProjectRows_def split: if_splits)

lemma updateClientLastContacted_keeps:
  "map c_status (clients (updateClientLastContacted db c d now)) = map c_status (clients db)"
  "map c_id (clients (updateClientLastContacted db c d now)) = map c_id (clients db)"
  "projects (updateClientLastContacted db c d now) = projects db"
  by (auto simp: updateClientLastContacted_def split: option.splits)

lemma propagateLastContacted_keeps:
  "map c_status (clients (propagateLastContacted db now p0 p')) = map c_status (clients db)"
  "map c_id (clients (propagateLastContacted db now p0 p')) = map c_id (clients db)"
  "projects (propagateLastContacted db now p0 p') = projects db"
  by (simp_all add: propagateLastContacted_def updateClientLastContacted_keeps)

lemma propagateLastContacted_same:
  "p_lastContacted p' = p_lastContacted p0 \<Longrightarrow> propagateLastContacted db now p0 p' = db"
  by (auto simp: propagateLastContacted_def)

lemma setRow_keeps:
  "p_clientId (setRow u p) = p_clientId p" "p_id (setRow u p) = p_id p"
  by (simp_all add: setRow_def)

lemma clients_propagateStatus:
  "clients (propagateStatus db now p0 p') =
     (if truthyId (p_clientId p') \<and> p_status p' \<noteq> p_status p0
      then map (\<lambda>c. if c_id c = the (p_clientId p')
                     then c\<lparr>c_status := p_status p', c_updatedAt := now\<rparr> else c) (clients db)
      else clients db)"
  "projects (propagateStatus db now p0 p') = projects db"
  by (simp_all add: propagateStatus_def updateClientStatus_def)

lemma map_status_update:
  "map c_status (map (\<lambda>c. if c_id c = cid then c\<lparr>c_status := s, c_updatedAt := now\<rparr> else c) cs)
     = map (\<lambda>c. if c_id c = cid then s else c_status c) cs"
  "map c_id (map (\<lambda>c. if c_id c = cid then c\<lparr>c_status := s, c_updatedAt := now\<rparr> else c) cs)
     = map c_id cs"
  by (induction cs) auto

lemma status_update_bumps:
  assumes "c \<in> set (map (\<lambda>c. if c_id c = cid then c\<lparr>c_status := s, c_updatedAt := now\<rparr> else c) cs)"
      and "c_id c = cid"
  shows "c_updatedAt c = now"
proof -
  from assms(1) obtain x where
    x: "c = (if c_id x = cid then x\<lparr>c_status := s, c_updatedAt := now\<rparr> else x)"
    unfolding set_map by (rule imageE)
  show ?thesis
  proof (cases "c_id x = cid")
    case True
    with x show ?thesis by simp
  next
    case False
    with x assms(2) show ?thesis by simp
  qed
qed

lemma map_cong_ids:
  "map c_status cs' = map c_status cs \<Longrightarrow> map c_id cs' = map c_id cs \<Longrightarrow>
   map (\<lambda>c. if c_id c = cid then s else c_status c) cs' =
   map (\<lambda>c. if c_id c = cid then s else c_status c) cs"
proof (induction cs arbitrary: cs')
  case Nil
  then show ?case by simp
next
  case (Cons a cs)
  then obtain b bs where "cs' = b # bs" by (cases cs') auto
  with Cons show ?case by auto
qed

text \<open>
  Claim C4. When \<open>updateProject\<close> succeeds on a project associated with the client
  \<open>cid\<close> (a serial id, hence not 0), the association is kept and the updated project is
  persisted; every client
  other than \<open>cid\<close> keeps its status, and the client \<open>cid\<close> receives the project's
  new status, with \<open>updatedAt\<close> set to the clock reading, exactly when the new status
  differs from the project's prior status, whatever the client's own status was. With
  the project's status and \<open>lastContacted\<close> both unchanged, the clients table is left
  as it was.
\<close>

theorem updateProject_status_propagation:
  assumes "findProject db pid = Some p0"
      and "p_clientId p0 = Some cid" and "cid \<noteq> 0"
      and "updateProject parse db now pid data = (Inr p', db')"
  shows "p_clientId p' = Some cid
       \<and> findProject db' pid = Some p'
       \<and> map c_status (clients db') =
           map (\<lambda>c. if c_id c = cid \<and> p_status p' \<noteq> p_status p0 then p_status p'
                     else c_status c) (clients db)
       \<and> map c_id (clients db') = map c_id (clients db)
       \<and> (p_status p' \<noteq> p_status p0 \<longrightarrow>
            (\<forall>c \<in> set (clients db'). c_id c = cid \<longrightarrow> c_updatedAt c = now))
       \<and> (p_status p' = p_status p0 \<and> p_lastContacted p' = p_lastContacted p0 \<longrightarrow>
            clients db' = clients db)"
proof -
  let ?u = "buildUpdateData parse now data"
  from assms(4) obtain q db1 where
    q: "findProject db pid = Some q" and
    rows: "updateProjectRows db pid ?u = Inr db1" and
    p': "p' = setRow ?u q" and
    db': "db' = propagateStatus (propagateLastContacted db1 now q p') now q p'"
    by (rule updateProject_InrE) blast
  from q assms(1) have [simp]: "q = p0" by simp
  let ?db2 = "propagateLastContacted db1 now p0 p'"
  have cid: "p_clientId p' = Some cid"
    using p' assms(2) by (simp add: setRow_keeps)
  have c1: "clients db1 = clients db"
    and pr1: "projects db1 = map (\<lambda>p. if p_id p = pid then setRow ?u p else p) (projects db)"
    using updateProjectRows_clients[OF rows] by simp_all
  have st2: "map c_status (clients ?db2) = map c_status (clients db)"
    and id2: "map c_id (clients ?db2) = map c_id (clients db)"
    using c1 by (simp_all add: propagateLastContacted_keeps)
  have cl': "clients db' =
     (if p_status p' \<noteq> p_status p0
      then map (\<lambda>c. if c_id c = cid then c\<lparr>c_status := p_status p', c_updatedAt := now\<rparr> else c)
             (clients ?db2)
      else clients ?db2)"
    using db' cid assms(3) by (simp add: clients_propagateStatus)
  have found: "findProject db' pid = Some p'"
  proof -
    have "projects db' = projects db1"
      using db' by (simp add: clients_propagateStatus propagateLastContacted_keeps)
    moreover have "find (\<lambda>p. p_id p = pid) (map (\<lambda>p. if p_id p = pid then setRow ?u p else p) (projects db))
        = Some ((\<lambda>p. if p_id p = pid then setRow ?u p else p) p0)"
      using assms(1) unfolding findProject_def
      by (intro find_map_same) (auto simp: setRow_keeps)
    moreover have "p_id p0 = pid"
      using assms(1) unfolding findProject_def by (auto simp: find_Some_iff)
    ultimately show ?thesis using pr1 p' by (simp add: findProject_def)
  qed
  have status: "map c_status (clients db') =
           map (\<lambda>c. if c_id c = cid \<and> p_status p' \<noteq> p_status p0 then p_status p'
                     else c_status c) (clients db)"
  proof (cases "p_status p' \<noteq> p_status p0")
    case True
    then have "clients db' =
        map (\<lambda>c. if c_id c = cid then c\<lparr>c_status := p_status p', c_updatedAt := now\<rparr> else c)
          (clients ?db2)"
      using cl' by simp
    then have "map c_status (clients db') =
        map (\<lambda>c. if c_id c = cid then p_status p' else c_status c) (clients ?db2)"
      by (simp only: map_status_update)
    with True show ?thesis
      using map_cong_ids[OF st2 id2, of cid "p_status p'"] by simp
  next
    case False
    then show ?thesis using cl' st2 by simp
  qed
  have ids: "map c_id (clients db') = map c_id (clients db)"
  proof (cases "p_status p' \<noteq> p_status p0")
    case True
    then have "clients db' =
        map (\<lambda>c. if c_id c = cid then c\<lparr>c_status := p_status p', c_updatedAt := now\<rparr> else c)
          (clients ?db2)"
      using cl' by simp
    then have "map c_id (clients db') = map c_id (clients ?db2)"
      by (simp only: map_status_update)
    with id2 show ?thesis by simp
  next
    case False
    then show ?thesis using cl' id2 by simp
  qed
  have bump: "p_status p' \<noteq> p_status p0 \<longrightarrow>
            (\<forall>c \<in> set (clients db'). c_id c = cid \<longrightarrow> c_updatedAt c = now)"
  proof (intro impI ballI)
    fix c assume ne: "p_status p' \<noteq> p_status p0" and c: "c \<in> set (clients db')" "c_id c = cid"
    from ne cl' have eq: "clients db' =
        map (\<lambda>c. if c_id c = cid then c\<lparr>c_status := p_status p', c_updatedAt := now\<rparr> else c)
          (clients ?db2)" by simp
    from c(1) have "c \<in> set (map (\<lambda>c. if c_id c = cid then c\<lparr>c_status := p_status p', c_updatedAt := now\<rparr> else c)
          (clients ?db2))"
      by (simp only: eq)
    then show "c_updatedAt c = now" using c(2) by (rule status_update_bumps)
  qed
  have quiet: "p_status p' = p_status p0 \<and> p_lastContacted p' = p_lastContacted p0 \<longrightarrow>
            clients db' = clients db"
  proof (intro impI)
    assume a: "p_status p' = p_status p0 \<and> p_lastContacted p' = p_lastContacted p0"
    then have "?db2 = db1" by (simp add: propagateLastContacted_same)
    with a cl' c1 show "clients db' = clients db" by simp
  qed
  show ?thesis
    by (rule conjI[OF cid conjI[OF found conjI[OF status conjI[OF ids conjI[OF bump quiet]]]]])
qed

theorem updateProject_status_propagation_witness:
  "map (\<lambda>c. (c_id c, c_status c, c_updatedAt c))
     (clients (snd (updateProject parseSample sampleDb 5000 1 (emptyData\<lparr>data_status := TStr ''completed''\<rparr>))))
   = [(1, ''completed'', 5000)]"
proof -
  let ?d = "emptyData\<lparr>data_status := TStr ''completed''\<rparr>"
  have "\<not> isl (fst (updateProject parseSample sampleDb 5000 1 ?d))" by code_simp
  then obtain p' db' where u: "updateProject parseSample sampleDb 5000 1 ?d = (Inr p', db')"
    by (cases "updateProject parseSample sampleDb 5000 1 ?d";
        cases "fst (updateProject parseSample sampleDb 5000 1 ?d)") auto
  have st: "map_sum id p_status (fst (updateProject parseSample sampleDb 5000 1 ?d)) = Inr ''completed''"
    by code_simp
  have f: "findProject sampleDb 1 = Some sampleProject"
    by (simp add: findProject_def sampleDb_def sampleProject_def)
  have c: "p_clientId sampleProject = Some 1" "(1::int) \<noteq> 0" "p_status sampleProject = ''active''"
    by (simp_all add: sampleProject_def)
  have len: "clients sampleDb = [sampleClient]" "c_id sampleClient = 1"
    by (simp_all add: sampleDb_def sampleClient_def)
  from updateProject_status_propagation[OF f c(1,2) u] st u c(3) len
  obtain x where x: "clients db' = [x]" "c_status x = ''completed''" "c_id x = 1" "c_updatedAt x = 5000"
    by (cases "clients db'") auto
  then show ?thesis using u by simp
qed

section \<open>Unparsable dates at the project routes\<close>

lemma handleValidationError_not_success:
  "handleValidationError e \<noteq> Created p" "handleValidationError e \<noteq> Ok p"
  by (cases e; simp)+

lemma routeLastContacted_invalid:
  "s \<noteq> [] \<Longrightarrow> newDate parse s = None \<Longrightarrow> routeLastContacted parse (JStr s) = JNull"
  by (simp add: routeLastContacted_def)

lemma insertLastContacted_route_invalid:
  "newDate parse s = None \<Longrightarrow>
   insertLastContacted parse (routeLastContacted parse (JStr s)) = NullDate"
  by (simp add: routeLastContacted_def insertLastContacted_def)

lemma createProject_lastContacted:
  assumes "createProject parse db now data = (Inr p, db')"
  shows "p_lastContacted p =
           (case insertLastContacted parse (data_lastContacted data) of ADate d \<Rightarrow> d | _ \<Rightarrow> None)"
proof -
  let ?i = "buildInsertData parse now data"
  from assms obtain v v' db1 where
    v: "projectInsertSchema_parse ?i = Inr v" and
    a: "associateClient db now data ?i v = (Inr v', db1)" and
    p: "p = projectValues.extend v' (project.fields (nextProjectId db1))"
    by (rule createProject_InrE) blast
  have "p_lastContacted v' = p_lastContacted v"
    using a by (auto simp: associateClient_def insertClient_def Let_def split: if_splits)
  then show ?thesis
    using parse_fields(4)[OF v] p by (simp add: buildInsertData_def)
qed

text \<open>
  Where the silent nulling of dates holds: a create request with an unparsable date
  string that is accepted persists a null date, and the date is not among the reported
  issues.
\<close>

lemma postProject_invalid_date:
  assumes "newDate parse s = None" and "data_lastContacted body = JStr s"
  shows "(\<forall>p db'. postProject parse db now body = (Created p, db') \<longrightarrow> p_lastContacted p = None)
       \<and> ''lastContacted'' \<notin> set (schemaIssues (buildInsertData parse now (routeData parse body)))"
proof -
  have nd: "insertLastContacted parse (data_lastContacted (routeData parse body)) = NullDate"
    using assms by (simp add: routeData_def insertLastContacted_route_invalid)
  have "p_lastContacted p = None" if "postProject parse db now body = (Created p, db')" for p db'
  proof -
    from that have "createProject parse db now (routeData parse body) = (Inr p, db')"
      by (auto simp: postProject_def handleValidationError_not_success split: prod.splits sum.splits)
    from createProject_lastContacted[OF this] nd show ?thesis by simp
  qed
  moreover have "''lastContacted'' \<notin> set (schemaIssues (buildInsertData parse now (routeData parse body)))"
    using nd by (auto simp: schemaIssues_def buildInsertData_def split: jsval.splits)
  ultimately show ?thesis by blast
qed

text \<open>The same for an update request, when the string is not empty.\<close>

lemma patchProject_invalid_date:
  assumes "s \<noteq> []" and "newDate parse s = None" and "data_lastContacted body = JStr s"
      and "patchProject parse db now pid body = (Ok p, db')"
  shows "p_lastContacted p = None"
proof -
  have nd: "updateLastContacted parse (data_lastContacted (routeData parse body)) = NullDate"
    using assms(1-3) by (simp add: routeData_def routeLastContacted_invalid updateLastContacted_def)
  from assms(4) have "updateProject parse db now pid (routeData parse body) = (Inr p, db')"
    by (auto simp: patchProject_def handleValidationError_not_success split: prod.splits sum.splits)
  then show ?thesis
    using nd by (elim updateProject_InrE) (simp add: setRow_def buildUpdateData_def)
qed

text \<open>
  Claim C6 at the failing input. An update request whose \<open>lastContacted\<close> is the empty
  string, which no engine parses into a date, passes the route untouched (it is falsy),
  reaches \<open>updateProject\<close> as a string, becomes an Invalid Date there and makes the
  update throw: the request is answered with a 500 and the stored date is not nulled.
\<close>

theorem patchProject_empty_date_fails:
  "patchProject parse sampleDb 5000 1 (emptyData\<lparr>data_lastContacted := JStr ''''\<rparr>)
     = (InternalServerError, sampleDb)"
proof -
  have f: "findProject sampleDb 1 = Some sampleProject"
    by (simp add: findProject_def sampleDb_def sampleProject_def)
  have r: "routeData parse (emptyData\<lparr>data_lastContacted := JStr ''''\<rparr>)
             = emptyData\<lparr>data_lastContacted := JStr ''''\<rparr>"
    by (simp add: routeData_def routeLastContacted_def routeHasInvoice_def emptyData_def)
  have u: "upd_lastContacted (buildUpdateData parse 5000 (emptyData\<lparr>data_lastContacted := JStr ''''\<rparr>))
             = ADate None"
    by (simp add: buildUpdateData_def updateLastContacted_def newDate_def)
  show ?thesis
    by (simp add: patchProject_def r updateProject_def f updateProjectRows_def u)
qed

section \<open>\<open>deleteClient\<close> cascades\<close>

lemma filter_none_keep:
  "filter P xs = [] \<Longrightarrow> filter (\<lambda>x. \<not> P x) xs = xs"
  by (induction xs) (auto split: if_splits)

lemma deleteClient_result:
  "deleteClient db files cid =
     (Inr (),
      db\<lparr>documents := filter (\<lambda>d. doc_clientId d \<noteq> cid) (documents db),
         projects := filter (\<lambda>p. p_clientId p \<noteq> Some cid) (projects db),
         clients := filter (\<lambda>c. c_id c \<noteq> cid) (clients db)\<rparr>,
      foldl unlinkIfExists files
        (map doc_filePath (filter (\<lambda>d. doc_clientId d = cid) (documents db))))"
proof (cases "filter (\<lambda>d. doc_clientId d = cid) (documents db) = []")
  case True
  then have "filter (\<lambda>d. doc_clientId d \<noteq> cid) (documents db) = documents db"
    by (rule filter_none_keep)
  moreover from True have "\<forall>d \<in> set (documents db). doc_clientId d \<noteq> cid"
    by (simp add: filter_empty_conv)
  ultimately show ?thesis
    using True by (simp add: deleteClient_def deleteClientRow_def Let_def)
next
  case False
  then show ?thesis
    by (simp add: deleteClient_def deleteClientRow_def Let_def)
qed

text \<open>
  Claim C3. For every database, file system and client id, \<open>deleteClient\<close> completes
  without error: it removes the document records of the client, then the projects of
  the client, then the client, so that the delete of the client row meets no remaining
  reference; afterwards the documents and the projects queried by that client id are
  empty and the client is not found, and every other row is kept. The resulting
  database does not depend on the file system: it is the same when no file can be
  removed.
\<close>

theorem deleteClient_cascade:
  "fst (deleteClient db files cid) = Inr ()
   \<and> getDocumentsByClientId (fst (snd (deleteClient db files cid))) cid = []
   \<and> getProjectsByClientId (fst (snd (deleteClient db files cid))) cid = []
   \<and> findClient (fst (snd (deleteClient db files cid))) cid = None
   \<and> documents (fst (snd (deleteClient db files cid)))
       = filter (\<lambda>d. doc_clientId d \<noteq> cid) (documents db)
   \<and> projects (fst (snd (deleteClient db files cid)))
       = filter (\<lambda>p. p_clientId p \<noteq> Some cid) (projects db)
   \<and> clients (fst (snd (deleteClient db files cid)))
       = filter (\<lambda>c. c_id c \<noteq> cid) (clients db)
   \<and> fst (snd (deleteClient db files cid)) = fst (snd (deleteClient db lockedFiles cid))"
proof -
  have d: "filter (\<lambda>d. doc_clientId d = cid) (filter (\<lambda>d. doc_clientId d \<noteq> cid) ds) = []" for ds
    by (induction ds) auto
  have p: "filter (\<lambda>p. p_clientId p = Some cid) (filter (\<lambda>p. p_clientId p \<noteq> Some cid) ps) = []"
    for ps :: "project list"
    by (induction ps) auto
  have c: "find (\<lambda>c. c_id c = cid) (filter (\<lambda>c. c_id c \<noteq> cid) cs) = None" for cs
    by (induction cs) auto
  show ?thesis
    by (simp add: deleteClient_result getDocumentsByClientId_def getProjectsByClientId_def
          byUpdatedAtDesc_def findClient_def d p c)
qed

theorem deleteClient_cascade_witness:
  "fst (deleteClient sampleDb lockedFiles 1) = Inr ()
   \<and> getDocumentsByClientId (fst (snd (deleteClient sampleDb lockedFiles 1))) 1 = []
   \<and> getProjectsByClientId (fst (snd (deleteClient sampleDb lockedFiles 1))) 1 = []
   \<and> clients (fst (snd (deleteClient sampleDb lockedFiles 1))) = []
   \<and> getDocumentsByClientId sampleDb 1 \<noteq> []
   \<and> getProjectsByClientId sampleDb 1 \<noteq> []
   \<and> snd (snd (deleteClient sampleDb lockedFiles 1)) ''uploads/1/file-1.pdf'' = Locked"
proof -
  have before: "getDocumentsByClientId sampleDb 1 \<noteq> [] \<and> getProjectsByClientId sampleDb 1 \<noteq> []"
    by code_simp
  have files: "snd (snd (deleteClient sampleDb lockedFiles 1)) ''uploads/1/file-1.pdf'' = Locked"
    by (simp add: deleteClient_result sampleDb_def lockedFiles_def unlinkIfExists_def)
  have cl: "filter (\<lambda>c. c_id c \<noteq> 1) (clients sampleDb) = []"
    by (simp add: sampleDb_def sampleClient_def)
  from deleteClient_cascade[of sampleDb lockedFiles 1] before files cl
  show ?thesis by simp
qed

section \<open>\<open>getProjects\<close>: the filters\<close>




lemma bucketStart_all: "bucketStart cal today ''all'' = None" "bucketStart cal today [] = None"
  by (simp_all add: bucketStart_def)







section \<open>Pending follow-ups\<close>

lemma sql_known:
  "sqlOr (Some a) (Some b) = Some (a \<or> b)" "sqlAnd (Some a) (Some b) = Some (a \<and> b)"
  by (cases a; cases b; simp)+

lemma pending_clause:
  "(sqlAnd (sqlEq (Some (p_status p)) ''active'')
           (sqlOr (sqlLt (p_lastContacted p) oneWeekAgo) (Some (p_lastContacted p = None)))
      = Some True)
   = (p_status p = ''active'' \<and>
      (case p_lastContacted p of None \<Rightarrow> True | Some t \<Rightarrow> t < oneWeekAgo))"
  by (cases "p_lastContacted p"; cases "p_status p = ''active''")
     (auto simp: sqlEq_def sqlLt_def sql_known)

text \<open>
  Where no clock change of the zone falls between the local time of \<open>date\<close> and the
  one \<open>n\<close> days earlier (the offsets agree), \<open>subDays\<close> goes back by exactly \<open>n\<close> days
  of 24 hours; on a server in UTC it always does.
\<close>

lemma subDaysIn_same_offset:
  "offsetOfLocal (date + offsetAt date - n * msPerDay) = offsetAt date \<Longrightarrow>
   subDaysIn offsetAt offsetOfLocal date n = date - n * msPerDay"
  by (simp add: subDaysIn_def Let_def)

lemma utcSubDays_exact: "utcSubDays date n = date - n * 86400000"
  by (simp add: utcSubDays_def subDaysIn_def msPerDay_def)

text \<open>
  Claim C8, as the code has it. \<open>pendingFollowups\<close> is the number of projects whose
  status is \<open>active\<close> and whose \<open>lastContacted\<close> is null or strictly earlier than
  \<open>subDays(now, 7)\<close>, the instant of the same server-local time of day 7 calendar days
  before now. When that instant is 7 days of 24 hours before now (no clock change of the
  server's zone in between), an active project last contacted 7 days and 1 second before
  now is counted, and one last contacted 6 days and 23 hours before now is not.
\<close>

theorem pendingFollowups_count:
  "pendingFollowups subDays db now =
     length (filter (\<lambda>p. p_status p = ''active'' \<and>
                          (case p_lastContacted p of None \<Rightarrow> True
                           | Some t \<Rightarrow> t < subDays now 7)) (projects db))
   \<and> (subDays now 7 = now - 7 * 86400000 \<longrightarrow>
        pendingFollowups subDays
          (db\<lparr>projects := [p\<lparr>p_status := ''active'',
                               p_lastContacted := Some (now - (7 * 86400000 + 1000))\<rparr>]\<rparr>) now = 1
      \<and> pendingFollowups subDays
          (db\<lparr>projects := [p\<lparr>p_status := ''active'',
                               p_lastContacted := Some (now - (6 * 86400000 + 23 * 3600000))\<rparr>]\<rparr>) now = 0)"
proof -
  have count: "pendingFollowups subDays d now =
     length (filter (\<lambda>p. p_status p = ''active'' \<and>
                          (case p_lastContacted p of None \<Rightarrow> True
                           | Some t \<Rightarrow> t < subDays now 7)) (projects d))" for d
    unfolding pendingFollowups_def Let_def pending_clause ..
  have boundary: "pendingFollowups subDays
          (db\<lparr>projects := [p\<lparr>p_status := ''active'',
                               p_lastContacted := Some (now - (7 * 86400000 + 1000))\<rparr>]\<rparr>) now = 1
      \<and> pendingFollowups subDays
          (db\<lparr>projects := [p\<lparr>p_status := ''active'',
                               p_lastContacted := Some (now - (6 * 86400000 + 23 * 3600000))\<rparr>]\<rparr>) now = 0"
    if "subDays now 7 = now - 7 * 86400000"
    using that by (simp add: count)
  from count[of db] boundary show ?thesis by blast
qed

theorem pendingFollowups_count_witness:
  "utcSubDays sampleNoon 7 = sampleNoon - 7 * 86400000
   \<and> pendingFollowups utcSubDays sampleDb sampleNoon = 1
   \<and> pendingFollowups utcSubDays
        (sampleDb\<lparr>projects := [sampleProject\<lparr>p_status := ''active'',
             p_lastContacted := Some (sampleNoon - (7 * 86400000 + 1000))\<rparr>]\<rparr>) sampleNoon = 1
   \<and> pendingFollowups utcSubDays
        (sampleDb\<lparr>projects := [sampleProject\<lparr>p_status := ''active'',
             p_lastContacted := Some (sampleNoon - (6 * 86400000 + 23 * 3600000))\<rparr>]\<rparr>) sampleNoon = 0"
proof -
  have h: "utcSubDays sampleNoon 7 = sampleNoon - 7 * 86400000"
    by (rule utcSubDays_exact)
  have "length (filter (\<lambda>p. p_status p = ''active'' \<and>
                          (case p_lastContacted p of None \<Rightarrow> True
                           | Some t \<Rightarrow> t < utcSubDays sampleNoon 7)) (projects sampleDb)) = 1"
    by (simp add: utcSubDays_exact sampleDb_def sampleProject_def sampleNoon_def)
  with pendingFollowups_count[of utcSubDays sampleDb sampleNoon sampleProject] h
  show ?thesis by simp
qed

text \<open>
  On a server in the Central European zone at 12:00 UTC of 30 October 2024, three days
  after the clocks went back, \<open>subDays(now, 7)\<close> is 169 hours before now: an active
  project last contacted 7 days and 1 second before now is not counted. The same
  project at the same instant is counted on a server in UTC.
\<close>

theorem pendingFollowups_count_counterexample:
  "pendingFollowups berlinSubDays weekOldDb octoberNoon = 0
   \<and> map p_status (projects weekOldDb) = [''active'']
   \<and> map p_lastContacted (projects weekOldDb) = [Some (octoberNoon - (7 * 86400000 + 1000))]
   \<and> berlinSubDays octoberNoon 7 = octoberNoon - 169 * 3600000
   \<and> pendingFollowups utcSubDays weekOldDb octoberNoon = 1"
  by code_simp

end
